theory Spec2Isabelle
  imports Main "HOL-Library.AList"
begin

section \<open>Python values and their types\<close>

text \<open>
  The classes that matter to \<^verbatim>\<open>freezer.py\<close>: the eight members of
  \<^verbatim>\<open>_constantTypes\<close>, a few classes that are not in it, and user-defined classes
  \<open>TUser name base\<close> (single inheritance is enough for \<^verbatim>\<open>isinstance\<close>).
\<close>

datatype pytype =
    TObject | TInt | TFloat | TComplex | TStr | TTuple | TBytes | TBool | TNoneType
  | TList | TDict | TFunction | TType | TModule
  | TUser string pytype

text \<open>The method resolution order: the class itself, then its bases (\<^verbatim>\<open>bool\<close> derives from \<^verbatim>\<open>int\<close>).\<close>

fun mro :: "pytype \<Rightarrow> pytype list" where
  "mro TObject = [TObject]"
| "mro TBool = [TBool, TInt, TObject]"
| "mro (TUser n b) = TUser n b # mro b"
| "mro t = [t, TObject]"

text \<open>
  Values found in a namespace. Floats and complex numbers are carried by their
  \<^verbatim>\<open>repr\<close>; functions, classes and modules are references by qualified name;
  \<open>VObject c\<close> is an instance of a user class \<open>c\<close> deriving from \<^verbatim>\<open>object\<close>, and
  \<open>VSub c v\<close> is an instance of a user class \<open>c\<close> whose direct base is the class of \<open>v\<close>
  (as \<^verbatim>\<open>class MyInt(int)\<close> and \<^verbatim>\<open>MyInt(5)\<close>).
\<close>

datatype pyval =
    VInt int | VFloat string | VComplex string | VStr string | VTuple "pyval list"
  | VBytes string | VBool bool | VNone
  | VList "pyval list" | VDict "(pyval \<times> pyval) list"
  | VFunction string | VClass string | VModule string
  | VObject string | VSub string pyval

fun type_of :: "pyval \<Rightarrow> pytype" where
  "type_of (VInt _) = TInt"
| "type_of (VFloat _) = TFloat"
| "type_of (VComplex _) = TComplex"
| "type_of (VStr _) = TStr"
| "type_of (VTuple _) = TTuple"
| "type_of (VBytes _) = TBytes"
| "type_of (VBool _) = TBool"
| "type_of VNone = TNoneType"
| "type_of (VList _) = TList"
| "type_of (VDict _) = TDict"
| "type_of (VFunction _) = TFunction"
| "type_of (VClass _) = TType"
| "type_of (VModule _) = TModule"
| "type_of (VObject c) = TUser c TObject"
| "type_of (VSub c v) = TUser c (type_of v)"

text \<open>\<^verbatim>\<open>isinstance(value, types)\<close> with a tuple of classes: some class of the value's MRO is listed.\<close>

definition isinstance :: "pyval \<Rightarrow> pytype list \<Rightarrow> bool" where
  "isinstance v ts = (\<exists>t \<in> set (mro (type_of v)). t \<in> set ts)"

text \<open>\<^verbatim>\<open>_constantTypes = (int, float, complex, str, tuple, bytes, bool, type(None))\<close>\<close>

definition constantTypes :: "pytype list" where
  "constantTypes = [TInt, TFloat, TComplex, TStr, TTuple, TBytes, TBool, TNoneType]"

section \<open>Dictionaries\<close>

text \<open>
  A \<^verbatim>\<open>dict\<close> keyed by identifiers, in insertion order: an association list with distinct
  keys. \<^verbatim>\<open>d[k] = v\<close> is \<^const>\<open>AList.update\<close> (in place for a known key, appended otherwise),
  \<^verbatim>\<open>del d[k]\<close> is \<^const>\<open>AList.delete\<close>, \<^verbatim>\<open>d[k]\<close> is \<^const>\<open>map_of\<close>.
\<close>

type_synonym dict = "(string \<times> pyval) list"

text \<open>\<^verbatim>\<open>d.update(other)\<close>: the items of \<open>other\<close> are stored one after the other.\<close>

definition dict_update :: "dict \<Rightarrow> dict \<Rightarrow> dict" where
  "dict_update d other = fold (\<lambda>(k, v) acc. AList.update k v acc) other d"

section \<open>Scope Capture (lines 82 to 87)\<close>

record frame =
  f_globals :: dict
  f_locals :: dict

text \<open>
  \<^verbatim>\<open>
  if enforce_globals:
      scope = frame.f_locals.copy()
      scope.update(frame.f_globals)
  else:
      scope = frame.f_globals.copy()
      scope.update(frame.f_locals)
  \<close>
\<close>

definition capture_scope :: "bool \<Rightarrow> frame \<Rightarrow> dict" where
  "capture_scope enforce_globals fr =
     (if enforce_globals then dict_update (f_locals fr) (f_globals fr)
      else dict_update (f_globals fr) (f_locals fr))"

section \<open>Constant Filtering (lines 137 to 141)\<close>

text \<open>
  \<^verbatim>\<open>
  for key, value in scope.copy().items():
      if not isinstance(value, _constantTypes):
          del scope[key]
      elif key in ignore:
          del scope[key]
  \<close>
  \<open>filter_step\<close> is the loop body, \<open>filter_loop\<close> the loop over a given sequence of
  items, and \<open>filter_constants\<close> runs it over the items of the copy.
\<close>

definition filter_step :: "string list \<Rightarrow> string \<times> pyval \<Rightarrow> dict \<Rightarrow> dict" where
  "filter_step ignore kv scope =
     (if \<not> isinstance (snd kv) constantTypes then AList.delete (fst kv) scope
      else if fst kv \<in> set ignore then AList.delete (fst kv) scope
      else scope)"

definition filter_loop :: "string list \<Rightarrow> dict \<Rightarrow> dict \<Rightarrow> dict" where
  "filter_loop ignore items scope = fold (filter_step ignore) items scope"

definition filter_constants :: "string list \<Rightarrow> dict \<Rightarrow> dict" where
  "filter_constants ignore scope = filter_loop ignore scope scope"

section \<open>Syntax trees\<close>

text \<open>
  \<^verbatim>\<open>ConstantReplacer\<close> overrides the visitor for two node classes, \<^verbatim>\<open>Name\<close> and
  \<^verbatim>\<open>Global\<close>, and builds nodes of a third, \<^verbatim>\<open>Constant\<close>; these have constructors of
  their own. Every other node class is \<open>Node cls fields\<close> with its fields in the order of
  \<^verbatim>\<open>_fields\<close>, which is all the inherited \<^verbatim>\<open>generic_visit\<close> looks at. A field holds a
  node, a list (\<open>Lst\<close>) or a plain value (\<open>Atom\<close>: an identifier, a number, \<^verbatim>\<open>None\<close>).
\<close>

datatype expr_context = Load | Store | Del

datatype ast =
    Name string expr_context
  | Constant pyval
  | Global "string list"
  | Node string "(string \<times> ast) list"
  | Lst "ast list"
  | Atom pyval

text \<open>\<^verbatim>\<open>isinstance(value, AST)\<close>\<close>

fun is_AST :: "ast \<Rightarrow> bool" where
  "is_AST (Lst _) = False"
| "is_AST (Atom _) = False"
| "is_AST _ = True"

section \<open>Tree Substitution: ConstantReplacer (lines 28 to 45)\<close>

text \<open>
  The state of the transformer is \<^verbatim>\<open>self.freeze_data\<close>; \<^verbatim>\<open>self.freeze_keys\<close> is a live
  view of its keys, so \<^verbatim>\<open>node.id in self.freeze_keys\<close> is a lookup in the current
  dictionary.
  \<^verbatim>\<open>
  def visit_Name(self, node):
      if node.id in self.freeze_keys:
          if isinstance(node.ctx, ast.Load):
              return ast.Constant(value=self.freeze_data[node.id], kind=None)
          else:
              del self.freeze_data[node.id]
              return node
      return node
  \<close>
\<close>

definition visit_Name :: "dict \<Rightarrow> string \<Rightarrow> expr_context \<Rightarrow> ast \<times> dict" where
  "visit_Name freeze_data x ctx =
     (case map_of freeze_data x of
        Some v \<Rightarrow>
          (if ctx = Load then (Constant v, freeze_data)
           else (Name x ctx, AList.delete x freeze_data))
      | None \<Rightarrow> (Name x ctx, freeze_data))"

text \<open>
  \<^verbatim>\<open>
  def visit_Global(self, node):
      return None
  \<close>
  \<^verbatim>\<open>visit\<close> dispatches on the class of the node: \<^verbatim>\<open>visit_Name\<close>, \<^verbatim>\<open>visit_Global\<close>, and
  for any other class the inherited \<^verbatim>\<open>generic_visit\<close>, which walks the fields in order:
  in a list field every node is visited and a \<^verbatim>\<open>None\<close> result drops the item; a node
  field is visited and a \<^verbatim>\<open>None\<close> result deletes the attribute; anything else is left
  alone. (Its branch for a visitor returning a list is never taken: no visitor here
  returns one.) A \<^verbatim>\<open>Constant\<close> has no node among its fields and comes back as it is;
  the same equation covers lists and plain values, which are never visited as nodes.
\<close>

function (sequential) visit :: "dict \<Rightarrow> ast \<Rightarrow> ast option \<times> dict"
  and generic_visit :: "dict \<Rightarrow> (string \<times> ast) list \<Rightarrow> (string \<times> ast) list \<times> dict"
  and visit_list :: "dict \<Rightarrow> ast list \<Rightarrow> ast list \<times> dict"
where
  "visit d (Name x ctx) = (case visit_Name d x ctx of (n, d') \<Rightarrow> (Some n, d'))"
| "visit d (Global names) = (None, d)"
| "visit d (Node cls flds) =
     (case generic_visit d flds of (flds', d') \<Rightarrow> (Some (Node cls flds'), d'))"
| "visit d node = (Some node, d)"
| "generic_visit d [] = ([], d)"
| "generic_visit d ((field, Lst old_value) # rest) =
     (case visit_list d old_value of (new_values, d1) \<Rightarrow>
        (case generic_visit d1 rest of (rest', d2) \<Rightarrow> ((field, Lst new_values) # rest', d2)))"
| "generic_visit d ((field, Atom a) # rest) =
     (case generic_visit d rest of (rest', d2) \<Rightarrow> ((field, Atom a) # rest', d2))"
| "generic_visit d ((field, old_value) # rest) =
     (case visit d old_value of
        (None, d1) \<Rightarrow> generic_visit d1 rest
      | (Some new_node, d1) \<Rightarrow>
          (case generic_visit d1 rest of (rest', d2) \<Rightarrow> ((field, new_node) # rest', d2)))"
| "visit_list d [] = ([], d)"
| "visit_list d (Lst xs # rest) =
     (case visit_list d rest of (rest', d2) \<Rightarrow> (Lst xs # rest', d2))"
| "visit_list d (Atom a # rest) =
     (case visit_list d rest of (rest', d2) \<Rightarrow> (Atom a # rest', d2))"
| "visit_list d (value # rest) =
     (case visit d value of
        (None, d1) \<Rightarrow> visit_list d1 rest
      | (Some v, d1) \<Rightarrow> (case visit_list d1 rest of (rest', d2) \<Rightarrow> (v # rest', d2)))"
  by pat_completeness auto
termination
  by (relation "measure (\<lambda>x. case x of
        Inl (d, n) \<Rightarrow> size n
      | Inr (Inl (d, fs)) \<Rightarrow> size_list (size_prod (\<lambda>_. 0) size) fs
      | Inr (Inr (d, ns)) \<Rightarrow> size_list size ns)") auto

text \<open>
  The identifier occurrences the walk reaches, in the order it reaches them: the contexts
  of the \<^verbatim>\<open>Name\<close> nodes for \<open>k\<close>.
\<close>

fun (sequential) occ :: "string \<Rightarrow> ast \<Rightarrow> expr_context list"
  and occ_fields :: "string \<Rightarrow> (string \<times> ast) list \<Rightarrow> expr_context list"
  and occ_list :: "string \<Rightarrow> ast list \<Rightarrow> expr_context list"
where
  "occ k (Name x ctx) = (if x = k then [ctx] else [])"
| "occ k (Node cls flds) = occ_fields k flds"
| "occ k node = []"
| "occ_fields k [] = []"
| "occ_fields k ((field, Lst xs) # rest) = occ_list k xs @ occ_fields k rest"
| "occ_fields k ((field, v) # rest) = occ k v @ occ_fields k rest"
| "occ_list k [] = []"
| "occ_list k (Lst xs # rest) = occ_list k rest"
| "occ_list k (v # rest) = occ k v @ occ_list k rest"

text \<open>
  The \<^verbatim>\<open>Name\<close> and \<^verbatim>\<open>Constant\<close> nodes that the walk reaches, in the order it reaches
  them.
\<close>

datatype leaf = Ref string expr_context | Lit pyval

fun (sequential) leaves :: "ast \<Rightarrow> leaf list"
  and leaves_fields :: "(string \<times> ast) list \<Rightarrow> leaf list"
  and leaves_list :: "ast list \<Rightarrow> leaf list"
where
  "leaves (Name x ctx) = [Ref x ctx]"
| "leaves (Constant v) = [Lit v]"
| "leaves (Node cls flds) = leaves_fields flds"
| "leaves node = []"
| "leaves_fields [] = []"
| "leaves_fields ((field, Lst xs) # rest) = leaves_list xs @ leaves_fields rest"
| "leaves_fields ((field, v) # rest) = leaves v @ leaves_fields rest"
| "leaves_list [] = []"
| "leaves_list (Lst xs # rest) = leaves_list rest"
| "leaves_list (v # rest) = leaves v @ leaves_list rest"

text \<open>
  The rule of Tree Substitution in the words of the specification, applied to such a
  sequence from front to back: an identifier that is read while it is in the mapping
  becomes a literal carrying the captured value and the entry stays; an identifier that
  is written while it is in the mapping is evicted and the node stays; every other node
  stays.
\<close>

fun spec_substitute :: "dict \<Rightarrow> leaf list \<Rightarrow> leaf list \<times> dict" where
  "spec_substitute d [] = ([], d)"
| "spec_substitute d (Lit v # rest) =
     (case spec_substitute d rest of (rest', d') \<Rightarrow> (Lit v # rest', d'))"
| "spec_substitute d (Ref x ctx # rest) =
     (case map_of d x of
        Some v \<Rightarrow>
          if ctx = Load
          then (case spec_substitute d rest of (rest', d') \<Rightarrow> (Lit v # rest', d'))
          else (case spec_substitute (AList.delete x d) rest of
                  (rest', d') \<Rightarrow> (Ref x ctx # rest', d'))
      | None \<Rightarrow> (case spec_substitute d rest of (rest', d') \<Rightarrow> (Ref x ctx # rest', d')))"

text \<open>The contexts in which a sequence refers to \<open>k\<close>.\<close>

fun refs :: "string \<Rightarrow> leaf list \<Rightarrow> expr_context list" where
  "refs k [] = []"
| "refs k (Ref x ctx # rest) = (if x = k then ctx # refs k rest else refs k rest)"
| "refs k (Lit v # rest) = refs k rest"

section \<open>Node classes of the \<^verbatim>\<open>ast\<close> module, with their fields in order\<close>

text \<open>
  The node classes that the statements below build trees from, with \<^verbatim>\<open>_fields\<close> as in
  Python 3.8 to 3.11. Outside \<^verbatim>\<open>Name\<close> the context of an expression is a node of its own.
\<close>

definition ctx_node :: "expr_context \<Rightarrow> ast" where
  "ctx_node c = Node (case c of Load \<Rightarrow> ''Load'' | Store \<Rightarrow> ''Store'' | Del \<Rightarrow> ''Del'') []"

definition Module :: "ast list \<Rightarrow> ast" where
  "Module body = Node ''Module'' [(''body'', Lst body), (''type_ignores'', Lst [])]"

definition arg :: "string \<Rightarrow> ast" where
  "arg a = Node ''arg'' [(''arg'', Atom (VStr a)), (''annotation'', Atom VNone),
                         (''type_comment'', Atom VNone)]"

definition arguments :: "ast list \<Rightarrow> ast list \<Rightarrow> ast" where
  "arguments args defaults =
     Node ''arguments'' [(''posonlyargs'', Lst []), (''args'', Lst args), (''vararg'', Atom VNone),
                         (''kwonlyargs'', Lst []), (''kw_defaults'', Lst []),
                         (''kwarg'', Atom VNone), (''defaults'', Lst defaults)]"

definition FunctionDef :: "string \<Rightarrow> ast \<Rightarrow> ast list \<Rightarrow> ast list \<Rightarrow> ast" where
  "FunctionDef name args body decorator_list =
     Node ''FunctionDef'' [(''name'', Atom (VStr name)), (''args'', args), (''body'', Lst body),
                           (''decorator_list'', Lst decorator_list), (''returns'', Atom VNone),
                           (''type_comment'', Atom VNone)]"

definition ClassDef :: "string \<Rightarrow> ast list \<Rightarrow> ast list \<Rightarrow> ast list \<Rightarrow> ast" where
  "ClassDef name bases body decorator_list =
     Node ''ClassDef'' [(''name'', Atom (VStr name)), (''bases'', Lst bases), (''keywords'', Lst []),
                        (''body'', Lst body), (''decorator_list'', Lst decorator_list)]"

definition Assign :: "ast list \<Rightarrow> ast \<Rightarrow> ast" where
  "Assign targets value =
     Node ''Assign'' [(''targets'', Lst targets), (''value'', value), (''type_comment'', Atom VNone)]"

definition Return :: "ast \<Rightarrow> ast" where
  "Return value = Node ''Return'' [(''value'', value)]"

definition Tuple :: "ast list \<Rightarrow> expr_context \<Rightarrow> ast" where
  "Tuple elts ctx = Node ''Tuple'' [(''elts'', Lst elts), (''ctx'', ctx_node ctx)]"

definition BinOp :: "ast \<Rightarrow> string \<Rightarrow> ast \<Rightarrow> ast" where
  "BinOp left op right = Node ''BinOp'' [(''left'', left), (''op'', Node op []), (''right'', right)]"

definition Call :: "ast \<Rightarrow> ast list \<Rightarrow> ast" where
  "Call func args = Node ''Call'' [(''func'', func), (''args'', Lst args), (''keywords'', Lst [])]"

definition Attribute :: "ast \<Rightarrow> string \<Rightarrow> expr_context \<Rightarrow> ast" where
  "Attribute value attr ctx =
     Node ''Attribute'' [(''value'', value), (''attr'', Atom (VStr attr)), (''ctx'', ctx_node ctx)]"

definition Lambda :: "ast \<Rightarrow> ast \<Rightarrow> ast" where
  "Lambda args body = Node ''Lambda'' [(''args'', args), (''body'', body)]"

definition Expr :: "ast \<Rightarrow> ast" where
  "Expr value = Node ''Expr'' [(''value'', value)]"

definition For :: "ast \<Rightarrow> ast \<Rightarrow> ast list \<Rightarrow> ast list \<Rightarrow> ast" where
  "For target iterable body orelse =
     Node ''For'' [(''target'', target), (''iter'', iterable), (''body'', Lst body),
                   (''orelse'', Lst orelse), (''type_comment'', Atom VNone)]"

definition Pass :: ast where
  "Pass = Node ''Pass'' []"

section \<open>Exceptions\<close>

datatype exn_class =
    BaseException | Exception | FreezeError | LookupError | KeyError | IndexError
  | AttributeError | TypeError | ValueError | NameError | UnboundLocalError | OSError
  | SyntaxError | IndentationError | TabError | KeyboardInterrupt

fun exn_mro :: "exn_class \<Rightarrow> exn_class list" where
  "exn_mro BaseException = [BaseException]"
| "exn_mro KeyboardInterrupt = [KeyboardInterrupt, BaseException]"
| "exn_mro Exception = [Exception, BaseException]"
| "exn_mro KeyError = [KeyError, LookupError, Exception, BaseException]"
| "exn_mro IndexError = [IndexError, LookupError, Exception, BaseException]"
| "exn_mro UnboundLocalError = [UnboundLocalError, NameError, Exception, BaseException]"
| "exn_mro IndentationError = [IndentationError, SyntaxError, Exception, BaseException]"
| "exn_mro TabError = [TabError, IndentationError, SyntaxError, Exception, BaseException]"
| "exn_mro c = [c, Exception, BaseException]"

text \<open>A raised exception: its class and its arguments (the message, or the name looked up).\<close>

datatype exn = Exn (exn_type: exn_class) (exn_args: "string list")

text \<open>\<^verbatim>\<open>except c:\<close> handles the instances of \<open>c\<close> and of its subclasses.\<close>

definition catches :: "exn_class \<Rightarrow> exn \<Rightarrow> bool" where
  "catches c e = (c \<in> set (exn_mro (exn_type e)))"

section \<open>Attribute access on nodes\<close>

text \<open>
  \<^verbatim>\<open>node.attr\<close>: a field of the node, or \<^verbatim>\<open>AttributeError\<close>. Lists and plain values have
  none of the attributes the code asks for (\<^verbatim>\<open>decorator_list\<close>, \<^verbatim>\<open>id\<close>, \<^verbatim>\<open>func\<close>,
  \<^verbatim>\<open>value\<close>, \<^verbatim>\<open>args\<close>, \<^verbatim>\<open>name\<close>, \<^verbatim>\<open>targets\<close>, \<^verbatim>\<open>body\<close>).
\<close>

fun getattr :: "ast \<Rightarrow> string \<Rightarrow> exn + ast" where
  "getattr (Node cls flds) a =
     (case map_of flds a of Some v \<Rightarrow> Inr v | None \<Rightarrow> Inl (Exn AttributeError [cls, a]))"
| "getattr (Name x ctx) a =
     (if a = ''id'' then Inr (Atom (VStr x))
      else if a = ''ctx'' then Inr (ctx_node ctx)
      else Inl (Exn AttributeError [''Name'', a]))"
| "getattr (Constant v) a =
     (if a = ''value'' then Inr (Atom v)
      else if a = ''kind'' then Inr (Atom VNone)
      else Inl (Exn AttributeError [''Constant'', a]))"
| "getattr (Global names) a =
     (if a = ''names'' then Inr (Lst (map (\<lambda>n. Atom (VStr n)) names))
      else Inl (Exn AttributeError [''Global'', a]))"
| "getattr (Lst xs) a = Inl (Exn AttributeError [''list'', a])"
| "getattr (Atom v) a = Inl (Exn AttributeError [''value'', a])"

text \<open>\<^verbatim>\<open>isinstance(node, ast.cls)\<close> for the node classes the code tests.\<close>

fun node_class :: "ast \<Rightarrow> string" where
  "node_class (Name x ctx) = ''Name''"
| "node_class (Constant v) = ''Constant''"
| "node_class (Global names) = ''Global''"
| "node_class (Node cls flds) = cls"
| "node_class (Lst xs) = ''list''"
| "node_class (Atom v) = ''value''"

text \<open>
  \<^verbatim>\<open>x[0]\<close>: the first item of a list, \<^verbatim>\<open>IndexError\<close> on an empty one; a node is not
  subscriptable (nor is \<^verbatim>\<open>None\<close>; no node class keeps text or a tuple in \<^verbatim>\<open>body\<close>,
  \<^verbatim>\<open>args\<close> or \<^verbatim>\<open>targets\<close>).
\<close>

fun subscript0 :: "ast \<Rightarrow> exn + ast" where
  "subscript0 (Lst []) = Inl (Exn IndexError [''list index out of range''])"
| "subscript0 (Lst (x # xs)) = Inr x"
| "subscript0 v = Inl (Exn TypeError [node_class v, ''not subscriptable''])"

text \<open>\<^verbatim>\<open>for deco in x\<close>: the items of a list; a node or \<^verbatim>\<open>None\<close> is not iterable.\<close>

fun iter :: "ast \<Rightarrow> exn + ast list" where
  "iter (Lst xs) = Inr xs"
| "iter v = Inl (Exn TypeError [node_class v, ''not iterable''])"

text \<open>
  \<^verbatim>\<open>mapping[key]\<close> on a namespace keyed by identifiers: the key is the text of an
  identifier, or it is no key of the mapping.
\<close>

fun getitem :: "(string \<times> 'v) list \<Rightarrow> ast \<Rightarrow> exn + 'v" where
  "getitem m (Atom (VStr k)) =
     (case map_of m k of Some v \<Rightarrow> Inr v | None \<Rightarrow> Inl (Exn KeyError [k]))"
| "getitem m key = Inl (Exn KeyError [node_class key])"

text \<open>
  \<^verbatim>\<open>node.attr = v\<close> for an attribute that is a field of the node (the code only assigns
  \<^verbatim>\<open>decorator_list\<close>, \<^verbatim>\<open>body\<close> and \<^verbatim>\<open>value\<close>, after reading them); an attribute
  that is no field is not part of the tree.
\<close>

fun setattr :: "ast \<Rightarrow> string \<Rightarrow> ast \<Rightarrow> ast" where
  "setattr (Node cls flds) a v = Node cls (map (\<lambda>fv. if fst fv = a then (a, v) else fv) flds)"
| "setattr node a v = node"

section \<open>Objects and the calls into the standard library\<close>

text \<open>
  A function object with what the code reads and writes of it: \<^verbatim>\<open>__qualname__\<close>,
  \<^verbatim>\<open>__code__\<close> (stood for by the definition node it was compiled from) and
  \<^verbatim>\<open>__globals__\<close> (stood for by the name of the module whose namespace it is).
\<close>

record function_obj =
  fn_qualname :: string
  fn_code :: ast
  fn_globals :: string

text \<open>
  The objects the call deals with. \<^verbatim>\<open>fnc\<close> is handed in as a function (a lambda is
  one), a class (by name), the class \<^verbatim>\<open>NotInitialized\<close> itself, or an instance of
  anything else. The last two forms also stand for what the local variables of
  \<^verbatim>\<open>Freeze\<close> hold: \<open>Instance v\<close> is an object known as the value \<open>v\<close> of a namespace or
  of a parameter, \<open>Tree t\<close> is a node of a syntax tree or a list of nodes.
\<close>

datatype obj = Function function_obj | Class string | NotInitialized | Instance pyval | Tree ast

text \<open>\<^verbatim>\<open>isinstance(fnc, (FunctionType, type))\<close>\<close>

fun is_function_or_class :: "obj \<Rightarrow> bool" where
  "is_function_or_class (Function f) = True"
| "is_function_or_class (Class c) = True"
| "is_function_or_class NotInitialized = True"
| "is_function_or_class (Instance v) = False"
| "is_function_or_class (Tree t) = False"

text \<open>\<^verbatim>\<open>fnc.__qualname__\<close>, read only of a function or a class.\<close>

fun qualname_of :: "obj \<Rightarrow> string" where
  "qualname_of (Function f) = fn_qualname f"
| "qualname_of (Class c) = c"
| "qualname_of NotInitialized = ''NotInitialized''"
| "qualname_of (Instance v) = []"
| "qualname_of (Tree t) = []"

text \<open>
  \<^verbatim>\<open>x.__code__\<close>: only a function has one. The code of a function that a namespace
  holds, known by reference only, is stood for by that reference.
\<close>

fun code_of :: "obj \<Rightarrow> exn + ast" where
  "code_of (Function f) = Inr (fn_code f)"
| "code_of (Class c) = Inl (Exn AttributeError [c, ''__code__''])"
| "code_of NotInitialized = Inl (Exn AttributeError [''NotInitialized'', ''__code__''])"
| "code_of (Instance (VFunction f)) = Inr (Atom (VFunction f))"
| "code_of (Instance v) = Inl (Exn AttributeError [''object'', ''__code__''])"
| "code_of (Tree t) = Inl (Exn AttributeError [node_class t, ''__code__''])"

text \<open>
  \<^verbatim>\<open>fnc.__code__ = c\<close>: the same object with another code; on a class it adds an
  attribute. (The free variables of a closure, which the assignment compares, are not
  part of these objects.)
\<close>

fun set_code :: "obj \<Rightarrow> ast \<Rightarrow> obj" where
  "set_code (Function f) c = Function (f\<lparr>fn_code := c\<rparr>)"
| "set_code x c = x"

text \<open>
  The surroundings of one call of \<^verbatim>\<open>Freeze\<close>: what \<^verbatim>\<open>inspect.getsource\<close>,
  \<^verbatim>\<open>inspect.cleandoc\<close> and \<^verbatim>\<open>ast.parse\<close> answer, the frame of the caller and the frame
  of the caller's caller (\<^verbatim>\<open>None\<close> above the outermost frame), and
  \<^verbatim>\<open>exec(compile(astMod, '<ast>', 'exec'))\<close>: given the name of the module whose
  namespace serves as globals and the dictionary that serves as locals, it raises or
  yields the names that the executed module has bound.
\<close>

record env =
  inspect_getsource :: "obj \<Rightarrow> exn + string"
  inspect_cleandoc :: "string \<Rightarrow> string"
  ast_parse :: "string \<Rightarrow> exn + ast"
  f_back :: frame
  f_back_f_back :: "frame option"
  exec_compile :: "string \<Rightarrow> (string \<times> obj) list \<Rightarrow> ast \<Rightarrow> exn + (string \<times> obj) list"

text \<open>The function \<^verbatim>\<open>Freeze\<close> as a value in a namespace, and the module that defines it.\<close>

definition Freeze_ref :: pyval where
  "Freeze_ref = VFunction ''freezer.Freeze''"

definition freezer_module :: string where
  "freezer_module = ''freezer''"

section \<open>Source Retrieval and Parsing, Scope Capture (lines 63 to 96)\<close>

text \<open>
  \<^verbatim>\<open>
  try:
      source_code = inspect.cleandoc(src)
      astMod = ast.parse(source_code)
  except IndentationError:
      pass
  finally:
      astMod = ast.parse(src)
      astTgt = astMod.body[0]
  \<close>
  An exception of the first parse that is no \<^verbatim>\<open>IndentationError\<close> stays pending while the
  \<^verbatim>\<open>finally\<close> suite runs, and is raised after it unless the suite raises itself.
\<close>

definition parse_target :: "env \<Rightarrow> string \<Rightarrow> exn + ast \<times> ast" where
  "parse_target env src =
     (let pending = (case ast_parse env (inspect_cleandoc env src) of
                       Inl e \<Rightarrow> if catches IndentationError e then None else Some e
                     | Inr astMod \<Rightarrow> None)
      in case ast_parse env src of
           Inl e \<Rightarrow> Inl e
         | Inr astMod \<Rightarrow>
             (case getattr astMod ''body'' of
                Inl e \<Rightarrow> Inl e
              | Inr body \<Rightarrow>
                  (case subscript0 body of
                     Inl e \<Rightarrow> Inl e
                   | Inr astTgt \<Rightarrow>
                       (case pending of Some e \<Rightarrow> Inl e | None \<Rightarrow> Inr (astMod, astTgt)))))"

text \<open>
  \<^verbatim>\<open>
  frame = inspect.currentframe().f_back.f_back if depth else
          inspect.currentframe().f_back
  \<close>
\<close>

definition select_frame :: "env \<Rightarrow> int \<Rightarrow> frame option" where
  "select_frame env depth = (if depth \<noteq> 0 then f_back_f_back env else Some (f_back env))"

text \<open>
  The suite of the outer \<^verbatim>\<open>try\<close>. Beside its outcome it tells whether the local
  \<^verbatim>\<open>frame\<close> was assigned when the suite ended: the assignment comes after the source was
  retrieved and parsed.
\<close>

definition try_suite :: "env \<Rightarrow> obj \<Rightarrow> bool \<Rightarrow> int \<Rightarrow> (exn + ast \<times> ast \<times> dict) \<times> bool" where
  "try_suite env fnc enforce_globals depth =
     (case inspect_getsource env fnc of
        Inl e \<Rightarrow> (Inl e, False)
      | Inr src \<Rightarrow>
          (case parse_target env src of
             Inl e \<Rightarrow> (Inl e, False)
           | Inr (astMod, astTgt) \<Rightarrow>
               (case select_frame env depth of
                  None \<Rightarrow>
                    (Inl (Exn AttributeError
                       [''NoneType'', if enforce_globals then ''f_locals'' else ''f_globals'']), True)
                | Some frame \<Rightarrow>
                    (Inr (astMod, astTgt, capture_scope enforce_globals frame), True))))"

fun class_name :: "exn_class \<Rightarrow> string" where
  "class_name BaseException = ''BaseException''"
| "class_name Exception = ''Exception''"
| "class_name FreezeError = ''FreezeError''"
| "class_name LookupError = ''LookupError''"
| "class_name KeyError = ''KeyError''"
| "class_name IndexError = ''IndexError''"
| "class_name AttributeError = ''AttributeError''"
| "class_name TypeError = ''TypeError''"
| "class_name ValueError = ''ValueError''"
| "class_name NameError = ''NameError''"
| "class_name UnboundLocalError = ''UnboundLocalError''"
| "class_name OSError = ''OSError''"
| "class_name SyntaxError = ''SyntaxError''"
| "class_name IndentationError = ''IndentationError''"
| "class_name TabError = ''TabError''"
| "class_name KeyboardInterrupt = ''KeyboardInterrupt''"

text \<open>
  \<^verbatim>\<open>
  except Exception as error:
      raise FreezeError("while trying to freeze the function "
          f"`{fnc.__qualname__}`, an error of type '{type(e)}' occured.")
  \<close>
  The message reads the local \<^verbatim>\<open>e\<close>; \<open>e\<close> below is its state, \<open>None\<close> while it is
  unbound, and reading an unbound local raises \<^verbatim>\<open>UnboundLocalError\<close> before any
  \<^verbatim>\<open>FreezeError\<close> is built.
\<close>

definition raise_FreezeError :: "string \<Rightarrow> exn option \<Rightarrow> exn" where
  "raise_FreezeError qualname e =
     (case e of
        None \<Rightarrow> Exn UnboundLocalError [''e'']
      | Some x \<Rightarrow>
          Exn FreezeError [''while trying to freeze the function'', qualname,
                           ''an error of type'', class_name (exn_type x), ''occured.''])"

text \<open>
  The whole statement. The handler binds the exception it caught to \<^verbatim>\<open>error\<close>; the
  only binding of \<^verbatim>\<open>e\<close> in the function is \<^verbatim>\<open>except AttributeError as e\<close>, further down,
  so \<^verbatim>\<open>e\<close> is unbound here. Then \<^verbatim>\<open>finally: del frame\<close> runs, and deleting an unbound
  local raises \<^verbatim>\<open>UnboundLocalError\<close> in place of whatever was on its way.
\<close>

definition prologue :: "env \<Rightarrow> obj \<Rightarrow> bool \<Rightarrow> int \<Rightarrow> exn + ast \<times> ast \<times> dict" where
  "prologue env fnc enforce_globals depth =
     (case try_suite env fnc enforce_globals depth of
        (outcome, frame_bound) \<Rightarrow>
          (let handled =
                 (case outcome of
                    Inl error \<Rightarrow>
                      if catches Exception error
                      then Inl (raise_FreezeError (qualname_of fnc) None)
                      else Inl error
                  | Inr r \<Rightarrow> Inr r)
           in if frame_bound then handled else Inl (Exn UnboundLocalError [''frame''])))"

section \<open>Self-Reference Stripping (lines 103 to 131)\<close>

text \<open>
  \<^verbatim>\<open>
  for deco in astTgt.decorator_list:
      if isinstance(deco, ast.Name) and scope[deco.id] is Freeze:
          _self = deco.id
          break
      elif isinstance(deco, ast.Call) and scope[deco.func.id] is Freeze:
          _self = deco.func.id
          break
  \<close>
  The result is the state of the local \<^verbatim>\<open>_self\<close> after the loop: \<open>None\<close> when no entry
  bound it.
\<close>

fun find_self :: "dict \<Rightarrow> ast list \<Rightarrow> exn + ast option" where
  "find_self scope [] = Inr None"
| "find_self scope (deco # rest) =
     (if node_class deco = ''Name'' then
        (case getattr deco ''id'' of
           Inl e \<Rightarrow> Inl e
         | Inr i \<Rightarrow>
             (case getitem scope i of
                Inl e \<Rightarrow> Inl e
              | Inr v \<Rightarrow> if v = Freeze_ref then Inr (Some i) else find_self scope rest))
      else if node_class deco = ''Call'' then
        (case getattr deco ''func'' of
           Inl e \<Rightarrow> Inl e
         | Inr func \<Rightarrow>
             (case getattr func ''id'' of
                Inl e \<Rightarrow> Inl e
              | Inr i \<Rightarrow>
                  (case getitem scope i of
                     Inl e \<Rightarrow> Inl e
                   | Inr v \<Rightarrow> if v = Freeze_ref then Inr (Some i) else find_self scope rest)))
      else find_self scope rest)"

text \<open>
  \<^verbatim>\<open>
  newDecoList = []
  for deco in astTgt.decorator_list:
      # @Freeze
      if isinstance(deco, ast.Name) and deco.id != _self:
          newDecoList.append(deco)
      # @Freeze(...)
      elif isinstance(deco, ast.Call) and deco.func.id != _self:
          newDecoList.append(deco)
  \<close>
  \<open>appended\<close> is the test of the loop body: whether the entry is appended. The list
  collects the node objects themselves, which the later walk changes in place; a node
  object is stood for by its position in \<^verbatim>\<open>astTgt.decorator_list\<close>.
\<close>

definition appended :: "ast option \<Rightarrow> ast \<Rightarrow> exn + bool" where
  "appended self deco =
     (if node_class deco = ''Name'' then
        (case getattr deco ''id'' of
           Inl e \<Rightarrow> Inl e
         | Inr i \<Rightarrow>
             (case self of
                None \<Rightarrow> Inl (Exn UnboundLocalError [''_self''])
              | Some s \<Rightarrow> Inr (i \<noteq> s)))
      else if node_class deco = ''Call'' then
        (case getattr deco ''func'' of
           Inl e \<Rightarrow> Inl e
         | Inr func \<Rightarrow>
             (case getattr func ''id'' of
                Inl e \<Rightarrow> Inl e
              | Inr i \<Rightarrow>
                  (case self of
                     None \<Rightarrow> Inl (Exn UnboundLocalError [''_self''])
                   | Some s \<Rightarrow> Inr (i \<noteq> s))))
      else Inr False)"

fun strip_loop :: "ast option \<Rightarrow> nat \<Rightarrow> ast list \<Rightarrow> exn + nat list" where
  "strip_loop self pos [] = Inr []"
| "strip_loop self pos (deco # rest) =
     (case appended self deco of
        Inl e \<Rightarrow> Inl e
      | Inr keep \<Rightarrow>
          (case strip_loop self (Suc pos) rest of
             Inl e \<Rightarrow> Inl e
           | Inr newDecoList \<Rightarrow> Inr (if keep then pos # newDecoList else newDecoList)))"

text \<open>
  \<^verbatim>\<open>
  try:
      (the two loops)
  except AttributeError as e:
      isNotAssign = False
      if isinstance(astTgt, ast.Assign):
          astTgt = astTgt.value.args[0]
      else:
          raise e
  else:
      isNotAssign = True
  \<close>
  The result is the tree to transform and \<^verbatim>\<open>newDecoList\<close>; \<^verbatim>\<open>isNotAssign\<close> is true
  exactly when the list is there.
\<close>

definition strip_self :: "dict \<Rightarrow> ast \<Rightarrow> exn + ast \<times> nat list option" where
  "strip_self scope astTgt =
     (let loops =
            (case getattr astTgt ''decorator_list'' of
               Inl e \<Rightarrow> Inl e
             | Inr decorator_list \<Rightarrow>
                 (case iter decorator_list of
                    Inl e \<Rightarrow> Inl e
                  | Inr decos \<Rightarrow>
                      (case find_self scope decos of
                         Inl e \<Rightarrow> Inl e
                       | Inr self \<Rightarrow> strip_loop self 0 decos)))
      in case loops of
           Inr newDecoList \<Rightarrow> Inr (astTgt, Some newDecoList)
         | Inl e \<Rightarrow>
             if catches AttributeError e then
               (if node_class astTgt = ''Assign'' then
                  (case getattr astTgt ''value'' of
                     Inl e' \<Rightarrow> Inl e'
                   | Inr value \<Rightarrow>
                       (case getattr value ''args'' of
                          Inl e' \<Rightarrow> Inl e'
                        | Inr args \<Rightarrow>
                            (case subscript0 args of
                               Inl e' \<Rightarrow> Inl e'
                             | Inr arg0 \<Rightarrow> Inr (arg0, None))))
                else Inl e)
             else Inl e)"

section \<open>Substitution and splicing (lines 143 to 153)\<close>

text \<open>
  \<^verbatim>\<open>newFnc = ConstantReplacer(scope).visit(astTgt)\<close>: on something that is no node the
  inherited visitor fails reading \<^verbatim>\<open>_fields\<close>.
\<close>

definition substitute :: "dict \<Rightarrow> ast \<Rightarrow> exn + ast option \<times> dict" where
  "substitute scope astTgt =
     (if is_AST astTgt then Inr (visit scope astTgt)
      else Inl (Exn AttributeError [node_class astTgt, ''_fields'']))"

text \<open>
  The node objects of a list after the walk went through them: \<^verbatim>\<open>generic_visit\<close> changes
  a node in place and returns it, whereas \<^verbatim>\<open>visit_Name\<close> and \<^verbatim>\<open>visit_Global\<close> leave
  the node they were given as it was.
\<close>

fun (sequential) walked :: "dict \<Rightarrow> ast list \<Rightarrow> ast list" where
  "walked d [] = []"
| "walked d (Node cls flds # rest) =
     (case visit d (Node cls flds) of
        (Some node, d1) \<Rightarrow> node # walked d1 rest
      | (None, d1) \<Rightarrow> Node cls flds # walked d1 rest)"
| "walked d (node # rest) = node # walked (snd (visit d node)) rest"

text \<open>
  The entries of \<^verbatim>\<open>astTgt.decorator_list\<close> as the walk of \<^verbatim>\<open>astTgt\<close> leaves them: the
  walk reaches the list with the dictionary that the fields before it have left.
\<close>

definition decorators_after_walk :: "dict \<Rightarrow> ast \<Rightarrow> ast list" where
  "decorators_after_walk scope astTgt =
     (case astTgt of
        Node cls flds \<Rightarrow>
          (case map_of flds ''decorator_list'' of
             Some (Lst decos) \<Rightarrow>
               walked (snd (generic_visit scope
                              (takeWhile (\<lambda>fv. fst fv \<noteq> ''decorator_list'') flds))) decos
           | _ \<Rightarrow> [])
      | _ \<Rightarrow> [])"

text \<open>
  \<^verbatim>\<open>
  if isNotAssign:
      astMod.body[0] = newFnc
  else:
      astMod.body[0].value = newFnc
  \<close>
\<close>

definition splice :: "ast \<Rightarrow> bool \<Rightarrow> ast \<Rightarrow> exn + ast" where
  "splice astMod isNotAssign newFnc =
     (case getattr astMod ''body'' of
        Inl e \<Rightarrow> Inl e
      | Inr body \<Rightarrow>
          (case subscript0 body of
             Inl e \<Rightarrow> Inl e
           | Inr stmt \<Rightarrow>
               (case iter body of
                  Inl e \<Rightarrow> Inl e
                | Inr stmts \<Rightarrow>
                    Inr (setattr astMod ''body''
                           (Lst ((if isNotAssign then newFnc else setattr stmt ''value'' newFnc)
                                 # tl stmts))))))"

text \<open>
  Lines 98 to 153: from the parsed module to the module that is compiled. The result is
  \<^verbatim>\<open>astMod\<close>, \<^verbatim>\<open>newFnc\<close>, \<^verbatim>\<open>isNotAssign\<close> and \<^verbatim>\<open>scope\<close> as they stand at line 154.
  \<^verbatim>\<open>ast.fix_missing_locations\<close> only fills in positions, which the trees here do not
  carry; like the assignment of \<^verbatim>\<open>decorator_list\<close>, it fails on \<^verbatim>\<open>None\<close> with an
  \<^verbatim>\<open>AttributeError\<close>.
\<close>

definition transform :: "ast \<Rightarrow> ast \<Rightarrow> dict \<Rightarrow> string list \<Rightarrow> exn + ast \<times> ast \<times> bool \<times> dict" where
  "transform astMod astTgt0 scope0 ignore =
     (case strip_self scope0 astTgt0 of
        Inl e \<Rightarrow> Inl e
      | Inr (astTgt, newDecoList) \<Rightarrow>
          (let scope = filter_constants ignore scope0 in
           case substitute scope astTgt of
             Inl e \<Rightarrow> Inl e
           | Inr (None, scope') \<Rightarrow> Inl (Exn AttributeError [''NoneType''])
           | Inr (Some visited, scope') \<Rightarrow>
               (let isNotAssign = (newDecoList \<noteq> None);
                    newFnc =
                      (case newDecoList of
                         Some positions \<Rightarrow>
                           setattr visited ''decorator_list''
                             (Lst (map (\<lambda>pos. decorators_after_walk scope astTgt ! pos) positions))
                       | None \<Rightarrow> visited)
                in case splice astMod isNotAssign newFnc of
                     Inl e \<Rightarrow> Inl e
                   | Inr astMod' \<Rightarrow> Inr (astMod', newFnc, isNotAssign, scope'))))"

section \<open>Re-synthesis (lines 155 to 162)\<close>

text \<open>
  \<^verbatim>\<open>
  exec(compile(astMod, '<ast>', 'exec'))
  if isNotAssign:
      fnc.__code__ = locals()[newFnc.name].__code__
  else:
      fnc = locals()[astMod.body[0].targets[0].id]
  return fnc
  \<close>
  \<^verbatim>\<open>exec\<close> is given no namespace, so it runs in the scope of the call of \<^verbatim>\<open>Freeze\<close>
  itself: the globals are those of the module that defines \<^verbatim>\<open>Freeze\<close>, the locals are
  the dictionary of the local variables of \<^verbatim>\<open>Freeze\<close>, and what the executed module
  binds goes into that dictionary. Each call of \<^verbatim>\<open>locals()\<close> then brings the dictionary
  up to date with the variables of the function (CPython up to 3.12): a variable that is
  bound is written over whatever the dictionary holds under its name, a variable that is
  unbound has its name deleted from the dictionary.

  The variables of \<^verbatim>\<open>Freeze\<close>: its parameters and every name it assigns.
\<close>

definition Freeze_varnames :: "string list" where
  "Freeze_varnames =
     [''fnc'', ''enforce_globals'', ''overwrite_with'', ''ignore'', ''depth'',
      ''src'', ''source_code'', ''astMod'', ''astTgt'', ''frame'', ''scope'', ''error'',
      ''deco'', ''_self'', ''newDecoList'', ''e'', ''isNotAssign'', ''key'', ''value'', ''newFnc'']"

text \<open>A value held in a field of a tree, and a dictionary keyed by identifiers, as objects.\<close>

fun as_object :: "ast \<Rightarrow> obj" where
  "as_object (Atom v) = Instance v"
| "as_object t = Tree t"

definition dict_object :: "dict \<Rightarrow> obj" where
  "dict_object d = Instance (VDict (map (\<lambda>kv. (VStr (fst kv), snd kv)) d))"

text \<open>
  The variables that the two loops over the decorator list leave behind when both have
  run to their end: \<^verbatim>\<open>newDecoList\<close> is the very list assigned to
  \<^verbatim>\<open>newFnc.decorator_list\<close>, \<^verbatim>\<open>_self\<close> is bound when an entry referred to
  \<^verbatim>\<open>Freeze\<close>, and \<^verbatim>\<open>deco\<close> is the last entry, as the walk has left it.
\<close>

definition loop_locals :: "dict \<Rightarrow> dict \<Rightarrow> ast \<Rightarrow> ast \<Rightarrow> (string \<times> obj) list" where
  "loop_locals scope0 scope astTgt newFnc =
     (case getattr newFnc ''decorator_list'' of
        Inr newDecoList \<Rightarrow> [(''newDecoList'', as_object newDecoList)]
      | Inl e \<Rightarrow> [])
     @ (case getattr astTgt ''decorator_list'' of
          Inr (Lst decos) \<Rightarrow>
            (case find_self scope0 decos of
               Inr (Some self) \<Rightarrow> [(''_self'', as_object self)]
             | _ \<Rightarrow> [])
            @ (if decos = [] then []
               else [(''deco'', Tree (last (decorators_after_walk scope astTgt)))])
        | _ \<Rightarrow> [])"

text \<open>
  The same variables when the handler of line 122 has run. On a tree from the parser the
  lookup of \<^verbatim>\<open>decorator_list\<close> on the assignment fails before either loop begins, and
  none of them is bound. Should the node have such a list, a loop has stopped at an entry
  with an \<^verbatim>\<open>AttributeError\<close>: \<^verbatim>\<open>deco\<close> is that entry, \<^verbatim>\<open>_self\<close> is bound when the first
  loop has bound it, and \<^verbatim>\<open>newDecoList\<close> holds what the second loop had appended. The
  walk does not go through these entries.
\<close>

fun first_loop_deco :: "dict \<Rightarrow> ast list \<Rightarrow> ast option" where
  "first_loop_deco scope [] = None"
| "first_loop_deco scope (deco # rest) =
     (case find_self scope [deco] of
        Inr None \<Rightarrow> (case first_loop_deco scope rest of None \<Rightarrow> Some deco | Some d \<Rightarrow> Some d)
      | _ \<Rightarrow> Some deco)"

fun second_loop :: "ast option \<Rightarrow> ast list \<Rightarrow> ast list \<times> ast option" where
  "second_loop self [] = ([], None)"
| "second_loop self (deco # rest) =
     (case appended self deco of
        Inl e \<Rightarrow> ([], Some deco)
      | Inr keep \<Rightarrow>
          (case second_loop self rest of
             (newDecoList, stop) \<Rightarrow>
               (if keep then deco # newDecoList else newDecoList,
                case stop of None \<Rightarrow> Some deco | Some d \<Rightarrow> Some d)))"

definition stopped_loop_locals :: "dict \<Rightarrow> ast \<Rightarrow> (string \<times> obj) list" where
  "stopped_loop_locals scope0 astTgt =
     (case getattr astTgt ''decorator_list'' of
        Inr (Lst decos) \<Rightarrow>
          (case find_self scope0 decos of
             Inl e \<Rightarrow>
               (case first_loop_deco scope0 decos of
                  Some deco \<Rightarrow> [(''deco'', Tree deco)]
                | None \<Rightarrow> [])
           | Inr self \<Rightarrow>
               (case self of Some s \<Rightarrow> [(''_self'', as_object s)] | None \<Rightarrow> [])
               @ (case second_loop self decos of
                    (newDecoList, Some deco) \<Rightarrow>
                      [(''newDecoList'', Tree (Lst newDecoList)), (''deco'', Tree deco)]
                  | (newDecoList, None) \<Rightarrow> [(''newDecoList'', Tree (Lst newDecoList))]))
      | _ \<Rightarrow> [])"

text \<open>
  The bound variables of \<^verbatim>\<open>Freeze\<close> with their values when line 155 is reached, from
  the values handed in, the tree \<open>astTgt0\<close> and the scope \<open>scope0\<close> that the outer
  \<^verbatim>\<open>try\<close> has left, and the results of lines 98 to 153. \<^verbatim>\<open>frame\<close> was deleted, \<^verbatim>\<open>error\<close>
  and \<^verbatim>\<open>e\<close> are unbound outside their handlers; \<^verbatim>\<open>key\<close> and \<^verbatim>\<open>value\<close> hold the last
  item of the filtering loop, if it had one; when the handler of line 122 has run,
  \<^verbatim>\<open>astTgt\<close> is the first argument of the call, which the walk has changed in place
  unless it is a node that \<^verbatim>\<open>visit_Name\<close> or \<^verbatim>\<open>visit_Global\<close> was given.
\<close>

definition own_locals ::
  "env \<Rightarrow> obj \<Rightarrow> bool \<Rightarrow> dict \<Rightarrow> string list \<Rightarrow> int \<Rightarrow> ast \<Rightarrow> dict
     \<Rightarrow> ast \<Rightarrow> ast \<Rightarrow> bool \<Rightarrow> dict \<Rightarrow> (string \<times> obj) list" where
  "own_locals env fnc enforce_globals overwrite_with ignore depth astTgt0 scope0
     astMod newFnc isNotAssign scope =
     [(''fnc'', fnc), (''enforce_globals'', Instance (VBool enforce_globals)),
      (''overwrite_with'', dict_object overwrite_with),
      (''ignore'', Instance (VList (map VStr ignore))), (''depth'', Instance (VInt depth))]
     @ (case inspect_getsource env fnc of
          Inr src \<Rightarrow> [(''src'', Instance (VStr src)),
                      (''source_code'', Instance (VStr (inspect_cleandoc env src)))]
        | Inl e \<Rightarrow> [])
     @ [(''astMod'', Tree astMod), (''scope'', dict_object scope),
        (''isNotAssign'', Instance (VBool isNotAssign)), (''newFnc'', Tree newFnc)]
     @ (if scope0 = [] then []
        else [(''key'', Instance (VStr (fst (last scope0)))),
              (''value'', Instance (snd (last scope0)))])
     @ (if isNotAssign then
          (''astTgt'', Tree newFnc)
          # loop_locals scope0 (filter_constants ignore scope0) astTgt0 newFnc
        else
          stopped_loop_locals scope0 astTgt0
          @ (case strip_self scope0 astTgt0 of
             Inr (Node cls flds, positions) \<Rightarrow> [(''astTgt'', Tree newFnc)]
           | Inr (arg0, positions) \<Rightarrow> [(''astTgt'', Tree arg0)]
           | Inl e \<Rightarrow> []))"

text \<open>
  What \<^verbatim>\<open>locals()\<close> shows after the execution: the variables of \<^verbatim>\<open>Freeze\<close> as far as
  they are bound, and under every other name what the executed module has bound.
\<close>

definition locals_after :: "(string \<times> obj) list \<Rightarrow> (string \<times> obj) list \<Rightarrow> (string \<times> obj) list" where
  "locals_after own bound = own @ filter (\<lambda>kv. fst kv \<notin> set Freeze_varnames) bound"

text \<open>The name looked up: \<^verbatim>\<open>newFnc.name\<close>, or \<^verbatim>\<open>astMod.body[0].targets[0].id\<close>.\<close>

definition looked_up :: "ast \<Rightarrow> ast \<Rightarrow> bool \<Rightarrow> exn + ast" where
  "looked_up astMod newFnc isNotAssign =
     (if isNotAssign then getattr newFnc ''name''
      else
        (case getattr astMod ''body'' of
           Inl e \<Rightarrow> Inl e
         | Inr body \<Rightarrow>
             (case subscript0 body of
                Inl e \<Rightarrow> Inl e
              | Inr stmt \<Rightarrow>
                  (case getattr stmt ''targets'' of
                     Inl e \<Rightarrow> Inl e
                   | Inr targets \<Rightarrow>
                       (case subscript0 targets of
                          Inl e \<Rightarrow> Inl e
                        | Inr target \<Rightarrow> getattr target ''id'')))))"

definition rebind ::
  "env \<Rightarrow> obj \<Rightarrow> (string \<times> obj) list \<Rightarrow> ast \<Rightarrow> ast \<Rightarrow> bool \<Rightarrow> exn + obj" where
  "rebind env fnc own astMod newFnc isNotAssign =
     (case exec_compile env freezer_module own astMod of
        Inl e \<Rightarrow> Inl e
      | Inr bound \<Rightarrow>
          (case looked_up astMod newFnc isNotAssign of
             Inl e \<Rightarrow> Inl e
           | Inr name \<Rightarrow>
               (case getitem (locals_after own bound) name of
                  Inl e \<Rightarrow> Inl e
                | Inr new \<Rightarrow>
                    if isNotAssign then
                      (case code_of new of
                         Inl e \<Rightarrow> Inl e
                       | Inr c \<Rightarrow> Inr (set_code fnc c))
                    else Inr new)))"

section \<open>Freeze (lines 48 to 162)\<close>

text \<open>
  The body of \<^verbatim>\<open>Freeze\<close> for a \<^verbatim>\<open>fnc\<close> other than \<^verbatim>\<open>NotInitialized\<close>. It yields the
  exception raised, or the object returned together with the local \<^verbatim>\<open>scope\<close> at that
  moment.
\<close>

definition Freeze_run ::
  "env \<Rightarrow> obj \<Rightarrow> bool \<Rightarrow> dict \<Rightarrow> string list \<Rightarrow> int \<Rightarrow> exn + obj \<times> dict" where
  "Freeze_run env fnc enforce_globals overwrite_with ignore depth =
     (if \<not> is_function_or_class fnc then Inl (Exn FreezeError [''incorrect input.''])
      else
        (case prologue env fnc enforce_globals depth of
           Inl e \<Rightarrow> Inl e
         | Inr (astMod0, astTgt0, scope0) \<Rightarrow>
             (case transform astMod0 astTgt0 scope0 ignore of
                Inl e \<Rightarrow> Inl e
              | Inr (astMod, newFnc, isNotAssign, scope) \<Rightarrow>
                  (case rebind env fnc
                          (own_locals env fnc enforce_globals overwrite_with ignore depth
                             astTgt0 scope0 astMod newFnc isNotAssign scope)
                          astMod newFnc isNotAssign of
                     Inl e \<Rightarrow> Inl e
                   | Inr fnc' \<Rightarrow> Inr (fnc', scope)))))"

text \<open>
  \<^verbatim>\<open>
  if fnc is NotInitialized:
      return lambda _fnc:
             Freeze(fnc = _fnc, enforce_globals = enforce_globals,
                    overwrite_with = overwrite_with, ignore = ignore,
                    depth = 1)
  \<close>
  The lambda returned is a closure over the three options.
\<close>

datatype closure = Closure bool dict "string list"

datatype freeze_result = Decorator closure | Frozen obj

definition Freeze ::
  "env \<Rightarrow> obj \<Rightarrow> bool \<Rightarrow> dict \<Rightarrow> string list \<Rightarrow> int \<Rightarrow> exn + freeze_result" where
  "Freeze env fnc enforce_globals overwrite_with ignore depth =
     (if fnc = NotInitialized then Inr (Decorator (Closure enforce_globals overwrite_with ignore))
      else
        (case Freeze_run env fnc enforce_globals overwrite_with ignore depth of
           Inl e \<Rightarrow> Inl e
         | Inr (fnc', scope) \<Rightarrow> Inr (Frozen fnc')))"

text \<open>Calling the closure on \<^verbatim>\<open>_fnc\<close>, in the surroundings of that inner call.\<close>

fun call_closure :: "env \<Rightarrow> closure \<Rightarrow> obj \<Rightarrow> exn + freeze_result" where
  "call_closure env (Closure enforce_globals overwrite_with ignore) fnc' =
     Freeze env fnc' enforce_globals overwrite_with ignore 1"

section \<open>A sample of the surroundings\<close>

text \<open>
  \<^verbatim>\<open>compile\<close> checks every \<^verbatim>\<open>Constant\<close> of the tree: its value must be of exactly one
  of the classes of literals (an instance of a subclass is refused), a tuple must hold
  such values only.
\<close>

fun valid_constant :: "pyval \<Rightarrow> bool" where
  "valid_constant (VInt i) = True"
| "valid_constant (VFloat x) = True"
| "valid_constant (VComplex x) = True"
| "valid_constant (VStr x) = True"
| "valid_constant (VBytes x) = True"
| "valid_constant (VBool b) = True"
| "valid_constant VNone = True"
| "valid_constant (VTuple vs) = list_all valid_constant vs"
| "valid_constant v = False"

fun (sequential) constants_in :: "ast \<Rightarrow> pyval list"
  and constants_in_fields :: "(string \<times> ast) list \<Rightarrow> pyval list"
  and constants_in_list :: "ast list \<Rightarrow> pyval list"
where
  "constants_in (Constant v) = [v]"
| "constants_in (Node cls flds) = constants_in_fields flds"
| "constants_in (Lst xs) = constants_in_list xs"
| "constants_in node = []"
| "constants_in_fields [] = []"
| "constants_in_fields ((field, v) # rest) = constants_in v @ constants_in_fields rest"
| "constants_in_list [] = []"
| "constants_in_list (v # rest) = constants_in v @ constants_in_list rest"

text \<open>The names of the \<^verbatim>\<open>builtins\<close> module (Python 3.11) and the globals of \<^verbatim>\<open>freezer.py\<close>.\<close>

definition builtin_names :: "string list" where
  "builtin_names =
     [''ArithmeticError'', ''AssertionError'', ''AttributeError'', ''BaseException'',
      ''BaseExceptionGroup'', ''BlockingIOError'', ''BrokenPipeError'', ''BufferError'',
      ''BytesWarning'', ''ChildProcessError'', ''ConnectionAbortedError'', ''ConnectionError'',
      ''ConnectionRefusedError'', ''ConnectionResetError'', ''DeprecationWarning'', ''EOFError'',
      ''Ellipsis'', ''EncodingWarning'', ''EnvironmentError'', ''Exception'', ''ExceptionGroup'',
      ''False'', ''FileExistsError'', ''FileNotFoundError'', ''FloatingPointError'',
      ''FutureWarning'', ''GeneratorExit'', ''IOError'', ''ImportError'', ''ImportWarning'',
      ''IndentationError'', ''IndexError'', ''InterruptedError'', ''IsADirectoryError'',
      ''KeyError'', ''KeyboardInterrupt'', ''LookupError'', ''MemoryError'',
      ''ModuleNotFoundError'', ''NameError'', ''None'', ''NotADirectoryError'', ''NotImplemented'',
      ''NotImplementedError'', ''OSError'', ''OverflowError'', ''PendingDeprecationWarning'',
      ''PermissionError'', ''ProcessLookupError'', ''RecursionError'', ''ReferenceError'',
      ''ResourceWarning'', ''RuntimeError'', ''RuntimeWarning'', ''StopAsyncIteration'',
      ''StopIteration'', ''SyntaxError'', ''SyntaxWarning'', ''SystemError'', ''SystemExit'',
      ''TabError'', ''TimeoutError'', ''True'', ''TypeError'', ''UnboundLocalError'',
      ''UnicodeDecodeError'', ''UnicodeEncodeError'', ''UnicodeError'', ''UnicodeTranslateError'',
      ''UnicodeWarning'', ''UserWarning'', ''ValueError'', ''Warning'', ''ZeroDivisionError'',
      ''__build_class__'', ''__debug__'', ''__doc__'', ''__import__'', ''__loader__'', ''__name__'',
      ''__package__'', ''__spec__'', ''abs'', ''aiter'', ''all'', ''anext'', ''any'', ''ascii'',
      ''bin'', ''bool'', ''breakpoint'', ''bytearray'', ''bytes'', ''callable'', ''chr'',
      ''classmethod'', ''compile'', ''complex'', ''copyright'', ''credits'', ''delattr'', ''dict'',
      ''dir'', ''divmod'', ''enumerate'', ''eval'', ''exec'', ''exit'', ''filter'', ''float'',
      ''format'', ''frozenset'', ''getattr'', ''globals'', ''hasattr'', ''hash'', ''help'', ''hex'',
      ''id'', ''input'', ''int'', ''isinstance'', ''issubclass'', ''iter'', ''len'', ''license'',
      ''list'', ''locals'', ''map'', ''max'', ''memoryview'', ''min'', ''next'', ''object'', ''oct'',
      ''open'', ''ord'', ''pow'', ''print'', ''property'', ''quit'', ''range'', ''repr'',
      ''reversed'', ''round'', ''set'', ''setattr'', ''slice'', ''sorted'', ''staticmethod'',
      ''str'', ''sum'', ''super'', ''tuple'', ''type'', ''vars'', ''zip'']"

definition freezer_globals :: "string list" where
  "freezer_globals =
     [''__name__'', ''__doc__'', ''__package__'', ''__loader__'', ''__spec__'', ''__file__'',
      ''__cached__'', ''__builtins__'', ''ast'', ''inspect'', ''FunctionType'', ''_constantTypes'',
      ''NotInitialized'', ''FreezeError'', ''ConstantReplacer'', ''Freeze'']"

text \<open>The name that the evaluation of a decorator expression looks up first.\<close>

fun root_name :: "ast \<Rightarrow> string option" where
  "root_name (Name x ctx) = Some x"
| "root_name (Node cls flds) =
     (if cls = ''Call'' then
        (case map_of flds ''func'' of
           Some (Name x ctx) \<Rightarrow> Some x
         | Some (Node cls' flds') \<Rightarrow>
             (if cls' = ''Attribute'' then
                (case map_of flds' ''value'' of Some (Name x ctx) \<Rightarrow> Some x | _ \<Rightarrow> None)
              else None)
         | _ \<Rightarrow> None)
      else if cls = ''Attribute'' then
        (case map_of flds ''value'' of Some (Name x ctx) \<Rightarrow> Some x | _ \<Rightarrow> None)
      else None)"
| "root_name node = None"

text \<open>
  Parameters whose definition evaluates nothing: no default value and no annotation.
\<close>

definition plain_arg :: "ast \<Rightarrow> bool" where
  "plain_arg a = (getattr a ''annotation'' = Inr (Atom VNone))"

definition plain_arguments :: "ast \<Rightarrow> bool" where
  "plain_arguments a =
     (getattr a ''defaults'' = Inr (Lst []) \<and> getattr a ''kw_defaults'' = Inr (Lst [])
      \<and> getattr a ''vararg'' = Inr (Atom VNone) \<and> getattr a ''kwarg'' = Inr (Atom VNone)
      \<and> (case getattr a ''posonlyargs'' of Inr (Lst xs) \<Rightarrow> list_all plain_arg xs | _ \<Rightarrow> False)
      \<and> (case getattr a ''args'' of Inr (Lst xs) \<Rightarrow> list_all plain_arg xs | _ \<Rightarrow> False)
      \<and> (case getattr a ''kwonlyargs'' of Inr (Lst xs) \<Rightarrow> list_all plain_arg xs | _ \<Rightarrow> False))"

text \<open>
  A statement of a class body whose execution evaluates no name: a literal assigned to
  names, a literal on its own (a docstring), \<^verbatim>\<open>pass\<close>, or a \<^verbatim>\<open>def\<close> without decorators
  whose signature evaluates nothing.
\<close>

definition inert_statement :: "ast \<Rightarrow> bool" where
  "inert_statement stmt =
     (if node_class stmt = ''Assign'' then
        (case getattr stmt ''targets'' of
           Inr (Lst targets) \<Rightarrow> list_all (\<lambda>t. node_class t = ''Name'') targets
         | _ \<Rightarrow> False)
        \<and> (case getattr stmt ''value'' of Inr (Constant v) \<Rightarrow> True | _ \<Rightarrow> False)
      else if node_class stmt = ''Expr'' then
        (case getattr stmt ''value'' of Inr (Constant v) \<Rightarrow> True | _ \<Rightarrow> False)
      else if node_class stmt = ''FunctionDef'' then
        getattr stmt ''decorator_list'' = Inr (Lst []) \<and> getattr stmt ''returns'' = Inr (Atom VNone)
        \<and> (case getattr stmt ''args'' of Inr args \<Rightarrow> plain_arguments args | _ \<Rightarrow> False)
      else node_class stmt = ''Pass'')"

text \<open>
  A node other than the module whose \<^verbatim>\<open>body\<close> is an empty list, as the removal of
  \<^verbatim>\<open>global\<close> statements can leave it: \<^verbatim>\<open>compile\<close> refuses it with \<^verbatim>\<open>ValueError\<close>.
\<close>

fun (sequential) emptied :: "ast \<Rightarrow> bool"
  and emptied_fields :: "(string \<times> ast) list \<Rightarrow> bool"
  and emptied_list :: "ast list \<Rightarrow> bool"
where
  "emptied (Node cls flds) =
     ((cls \<noteq> ''Module'' \<and> map_of flds ''body'' = Some (Lst [])) \<or> emptied_fields flds)"
| "emptied (Lst xs) = emptied_list xs"
| "emptied node = False"
| "emptied_fields [] = False"
| "emptied_fields ((field, v) # rest) = (emptied v \<or> emptied_fields rest)"
| "emptied_list [] = False"
| "emptied_list (v # rest) = (emptied v \<or> emptied_list rest)"

text \<open>
  What compiling and executing a module does in the cases described here, \<open>None\<close>
  elsewhere. \<open>names\<close> gives the globals of a module by its name.
  \<^item> A \<^verbatim>\<open>Constant\<close> that \<^verbatim>\<open>compile\<close> refuses: \<^verbatim>\<open>TypeError\<close>; an emptied body:
    \<^verbatim>\<open>ValueError\<close>; nothing is executed (a tree with both is not described).
  \<^item> The only statement is a \<^verbatim>\<open>def\<close> or a \<^verbatim>\<open>class\<close> that still has decorators: they
    are evaluated first, from the top, by looking names up in the locals, the globals
    and the builtins; when the first name is in none of them, \<^verbatim>\<open>NameError\<close>.
  \<^item> The only statement is a \<^verbatim>\<open>def\<close> without decorators whose signature evaluates
    nothing, or the assignment of such a \<^verbatim>\<open>lambda\<close> to a name: the name is bound to a new
    function whose globals are the namespace of the execution. (The body of the function
    is taken to compile.)
  \<^item> The only statement is a \<^verbatim>\<open>class\<close> without decorators, bases and keywords whose
    body evaluates no name: the name is bound to a new class.
\<close>

definition exec_plain ::
  "(string \<Rightarrow> string list) \<Rightarrow> string \<Rightarrow> (string \<times> obj) list \<Rightarrow> ast
     \<Rightarrow> (exn + (string \<times> obj) list) option" where
  "exec_plain names ns locals astMod =
     (if \<not> list_all valid_constant (constants_in astMod) then
        (if emptied astMod then None
         else Some (Inl (Exn TypeError [''got an invalid type in Constant''])))
      else if emptied astMod then Some (Inl (Exn ValueError [''empty body'']))
      else
        (case getattr astMod ''body'' of
           Inr (Lst [Node cls flds]) \<Rightarrow>
             (if cls = ''FunctionDef'' \<or> cls = ''ClassDef'' then
                (case (map_of flds ''decorator_list'', map_of flds ''name'', map_of flds ''body'') of
                   (Some (Lst (deco # decos)), name, body) \<Rightarrow>
                     (case root_name deco of
                        Some x \<Rightarrow>
                          if x \<in> set (map fst locals) \<or> x \<in> set (names ns) \<or> x \<in> set builtin_names
                          then None
                          else Some (Inl (Exn NameError [x]))
                      | None \<Rightarrow> None)
                 | (Some (Lst []), Some (Atom (VStr name)), Some (Lst (stmt # stmts))) \<Rightarrow>
                     if cls = ''FunctionDef'' then
                       (case (map_of flds ''args'', map_of flds ''returns'') of
                          (Some args, Some (Atom VNone)) \<Rightarrow>
                            if plain_arguments args then
                              Some (Inr [(name, Function \<lparr>fn_qualname = name, fn_code = Node cls flds,
                                                          fn_globals = ns\<rparr>)])
                            else None
                        | _ \<Rightarrow> None)
                     else if map_of flds ''bases'' = Some (Lst []) \<and> map_of flds ''keywords'' = Some (Lst [])
                             \<and> list_all inert_statement (stmt # stmts) then
                       Some (Inr [(name, Class name)])
                     else None
                 | _ \<Rightarrow> None)
              else if cls = ''Assign'' then
                (case (map_of flds ''targets'', map_of flds ''value'') of
                   (Some (Lst [Name target Store]), Some (Node cls' flds')) \<Rightarrow>
                     (case map_of flds' ''args'' of
                        Some args \<Rightarrow>
                          if cls' = ''Lambda'' \<and> plain_arguments args then
                            Some (Inr [(target, Function \<lparr>fn_qualname = ''<lambda>'',
                                                          fn_code = Node cls' flds', fn_globals = ns\<rparr>)])
                          else None
                      | None \<Rightarrow> None)
                 | _ \<Rightarrow> None)
              else None)
         | _ \<Rightarrow> None))"

section \<open>Notions and sample data used in the statements\<close>

text \<open>The test that lets an entry through the filtering loop.\<close>

definition kept :: "string list \<Rightarrow> string \<times> pyval \<Rightarrow> bool" where
  "kept ignore kv = (isinstance (snd kv) constantTypes \<and> fst kv \<notin> set ignore)"

definition sample_scope :: dict where
  "sample_scope = [(''N'', VInt 3), (''L'', VList [VInt 1]), (''S'', VStr ''a''), (''I'', VInt 1),
                   (''f'', VFunction ''app.f'')]"

definition sample_frame :: frame where
  "sample_frame = \<lparr>f_globals = [(''X'', VInt 1), (''G'', VInt 2)],
                   f_locals = [(''X'', VInt 10), (''L'', VInt 20)]\<rparr>"

definition read_write_def :: ast where
  "read_write_def =
     FunctionDef ''f'' (arguments [] [])
       [Assign [Name ''a'' Store] (Name ''X'' Load),
        Assign [Name ''X'' Store] (Constant (VInt 10)),
        Assign [Name ''b'' Store] (Name ''X'' Load),
        Return (Tuple [Name ''a'' Load, Name ''b'' Load] Load)] []"

definition read_write_frozen :: ast where
  "read_write_frozen =
     FunctionDef ''f'' (arguments [] [])
       [Assign [Name ''a'' Store] (Constant (VInt 5)),
        Assign [Name ''X'' Store] (Constant (VInt 10)),
        Assign [Name ''b'' Store] (Name ''X'' Load),
        Return (Tuple [Name ''a'' Load, Name ''b'' Load] Load)] []"

text \<open>
  \<^verbatim>\<open>
  def f():
      a = X
      for X in Y:
          pass
      return X
  \<close>
\<close>

definition loop_def :: ast where
  "loop_def =
     FunctionDef ''f'' (arguments [] [])
       [Assign [Name ''a'' Store] (Name ''X'' Load),
        For (Name ''X'' Store) (Name ''Y'' Load) [Pass] [],
        Return (Name ''X'' Load)] []"

definition loop_frozen :: ast where
  "loop_frozen =
     FunctionDef ''f'' (arguments [] [])
       [Assign [Name ''a'' Store] (Constant (VInt 5)),
        For (Name ''X'' Store) (Name ''Y'' Load) [Pass] [],
        Return (Name ''X'' Load)] []"

definition subclass_scope :: dict where
  "subclass_scope = [(''N'', VSub ''MyInt'' (VInt 5)), (''L'', VList [])]"

definition power_body :: ast where
  "power_body = Return (BinOp (Name ''x'' Load) ''Pow'' (Name ''N'' Load))"

text \<open>
  A sample of surroundings: a call of \<^verbatim>\<open>Freeze\<close> made at the top level of a module
  \<^verbatim>\<open>app\<close> (there the local namespace of the frame is the global one), where the source
  of the target is retrieved as given and parses to the given tree (already free of
  margins, so cleaning leaves it alone), and the compiled module is executed as
  \<open>exec_plain\<close> describes; where that says nothing, no name is bound (no statement below
  depends on it). The module \<^verbatim>\<open>freezer\<close> has the globals of \<^verbatim>\<open>freezer.py\<close>.
\<close>

definition sample_names :: "string \<Rightarrow> string list" where
  "sample_names ns = (if ns = ''freezer'' then freezer_globals else [])"

definition module_frame :: "dict \<Rightarrow> frame" where
  "module_frame ns = \<lparr>f_globals = ns, f_locals = ns\<rparr>"

definition sample_env :: "(exn + string) \<Rightarrow> ast \<Rightarrow> dict \<Rightarrow> env" where
  "sample_env source tree ns =
     \<lparr>inspect_getsource = (\<lambda>fnc. source), inspect_cleandoc = (\<lambda>text. text),
      ast_parse = (\<lambda>text. Inr tree), f_back = module_frame ns, f_back_f_back = None,
      exec_compile = (\<lambda>ns locals astMod.
         case exec_plain sample_names ns locals astMod of Some outcome \<Rightarrow> outcome | None \<Rightarrow> Inr [])\<rparr>"

text \<open>The namespace of \<^verbatim>\<open>app\<close> at the time of the call.\<close>

definition app_scope :: dict where
  "app_scope = [(''Freeze'', Freeze_ref), (''N'', VInt 3), (''functools'', VModule ''functools''),
                (''wrap'', VFunction ''app.wrap''), (''repeat'', VFunction ''app.repeat'')]"

text \<open>A function whose source cannot be retrieved (\<^verbatim>\<open>inspect.getsource\<close> raises \<^verbatim>\<open>OSError\<close>).\<close>

definition unreadable_env :: env where
  "unreadable_env =
     sample_env (Inl (Exn OSError [''could not get source code''])) (Module []) app_scope"

definition plain_function :: obj where
  "plain_function =
     Function \<lparr>fn_qualname = ''f'',
               fn_code = FunctionDef ''f'' (arguments [] []) [Return (Name ''N'' Load)] [],
               fn_globals = ''app''\<rparr>"

text \<open>
  \<^verbatim>\<open>
  @Freeze
  class A:
      x = N
  \<close>
\<close>

definition class_tree :: ast where
  "class_tree =
     Module [ClassDef ''A'' [] [Assign [Name ''x'' Store] (Name ''N'' Load)]
               [Name ''Freeze'' Load]]"

definition class_env :: env where
  "class_env = sample_env (Inr ''@Freeze class A: x = N'') class_tree app_scope"

text \<open>
  \<^verbatim>\<open>
  @functools.cache
  @Freeze
  def f():
      return N
  \<close>
\<close>

definition cached_def :: ast where
  "cached_def =
     FunctionDef ''f'' (arguments [] []) [Return (Name ''N'' Load)]
       [Attribute (Name ''functools'' Load) ''cache'' Load, Name ''Freeze'' Load]"

definition cached_frozen :: ast where
  "cached_frozen = FunctionDef ''f'' (arguments [] []) [Return (Constant (VInt 3))] []"

definition cached_env :: env where
  "cached_env =
     sample_env (Inr ''@functools.cache @Freeze def f(): return N'') (Module [cached_def]) app_scope"

text \<open>
  \<^verbatim>\<open>
  @app.route('/')
  @Freeze
  def f():
      return N
  \<close>
\<close>

definition routed_def :: ast where
  "routed_def =
     FunctionDef ''f'' (arguments [] []) [Return (Name ''N'' Load)]
       [Call (Attribute (Name ''app'' Load) ''route'' Load) [Constant (VStr ''/'')],
        Name ''Freeze'' Load]"

text \<open>\<^verbatim>\<open>g = Freeze(lambda x: x ** N)\<close>\<close>

definition lambda_tree :: ast where
  "lambda_tree =
     Module [Assign [Name ''g'' Store]
               (Call (Name ''Freeze'' Load)
                  [Lambda (arguments [arg ''x''] [])
                     (BinOp (Name ''x'' Load) ''Pow'' (Name ''N'' Load))])]"

definition lambda_function :: function_obj where
  "lambda_function =
     \<lparr>fn_qualname = ''<lambda>'',
      fn_code = Lambda (arguments [arg ''x''] []) (BinOp (Name ''x'' Load) ''Pow'' (Name ''N'' Load)),
      fn_globals = ''app''\<rparr>"

definition lambda_frozen :: function_obj where
  "lambda_frozen =
     \<lparr>fn_qualname = ''<lambda>'',
      fn_code = Lambda (arguments [arg ''x''] [])
                  (BinOp (Name ''x'' Load) ''Pow'' (Constant (VInt 3))),
      fn_globals = ''freezer''\<rparr>"

definition lambda_env :: env where
  "lambda_env = sample_env (Inr ''g = Freeze(lambda x: x ** N)'') lambda_tree app_scope"

text \<open>
  \<^verbatim>\<open>h = wrap(lambda: N)\<close>, where \<^verbatim>\<open>wrap\<close> hands its argument back, followed later by
  \<^verbatim>\<open>Freeze(h)\<close>.
\<close>

definition wrapped_tree :: ast where
  "wrapped_tree =
     Module [Assign [Name ''h'' Store]
               (Call (Name ''wrap'' Load) [Lambda (arguments [] []) (Name ''N'' Load)])]"

definition wrapped_function :: function_obj where
  "wrapped_function =
     \<lparr>fn_qualname = ''<lambda>'', fn_code = Lambda (arguments [] []) (Name ''N'' Load),
      fn_globals = ''app''\<rparr>"

definition wrapped_env :: env where
  "wrapped_env = sample_env (Inr ''h = wrap(lambda: N)'') wrapped_tree app_scope"

text \<open>\<^verbatim>\<open>Freeze(lambda: N)\<close> as a statement of its own.\<close>

definition bare_call_stmt :: ast where
  "bare_call_stmt = Expr (Call (Name ''Freeze'' Load) [Lambda (arguments [] []) (Name ''N'' Load)])"

definition bare_call_env :: env where
  "bare_call_env = sample_env (Inr ''Freeze(lambda: N)'') (Module [bare_call_stmt]) app_scope"


text \<open>
  \<^verbatim>\<open>
  @wrap
  @repeat(N)
  @Freeze()
  def f():
      return N
  \<close>
\<close>

definition stacked_def :: ast where
  "stacked_def =
     FunctionDef ''f'' (arguments [] []) [Return (Name ''N'' Load)]
       [Name ''wrap'' Load, Call (Name ''repeat'' Load) [Name ''N'' Load],
        Call (Name ''Freeze'' Load) []]"

definition stacked_frozen :: ast where
  "stacked_frozen =
     FunctionDef ''f'' (arguments [] []) [Return (Constant (VInt 3))]
       [Name ''wrap'' Load, Call (Name ''repeat'' Load) [Constant (VInt 3)]]"

text \<open>
  \<^verbatim>\<open>
  @Freeze
  def f():
      return N
  \<close>
\<close>

definition simple_def :: ast where
  "simple_def =
     FunctionDef ''f'' (arguments [] []) [Return (Name ''N'' Load)] [Name ''Freeze'' Load]"

definition simple_env :: env where
  "simple_env = sample_env (Inr ''@Freeze def f(): return N'') (Module [simple_def]) app_scope"

text \<open>
  \<^verbatim>\<open>
  @wrap
  @Freeze
  def f():
      return N
  \<close>
\<close>

definition kept_def :: ast where
  "kept_def =
     FunctionDef ''f'' (arguments [] []) [Return (Name ''N'' Load)]
       [Name ''wrap'' Load, Name ''Freeze'' Load]"

definition kept_env :: env where
  "kept_env = sample_env (Inr ''@wrap @Freeze def f(): return N'') (Module [kept_def]) app_scope"

text \<open>
  \<^verbatim>\<open>
  @Freeze
  def power(x):
      return x ** N
  \<close>
  with \<^verbatim>\<open>N = MyInt(5)\<close>, where \<^verbatim>\<open>class MyInt(int)\<close>.
\<close>

definition power_def :: ast where
  "power_def =
     FunctionDef ''power'' (arguments [arg ''x''] [])
       [Return (BinOp (Name ''x'' Load) ''Pow'' (Name ''N'' Load))] [Name ''Freeze'' Load]"

definition power_function :: obj where
  "power_function =
     Function \<lparr>fn_qualname = ''power'', fn_code = power_def, fn_globals = ''app''\<rparr>"

definition subclass_env :: env where
  "subclass_env =
     sample_env (Inr ''@Freeze def power(x): return x ** N'') (Module [power_def])
       [(''Freeze'', Freeze_ref), (''N'', VSub ''MyInt'' (VInt 5))]"

text \<open>
  \<^verbatim>\<open>
  @Freeze
  def fnc():
      return N
  \<close>
\<close>

definition fnc_def :: ast where
  "fnc_def =
     FunctionDef ''fnc'' (arguments [] []) [Return (Name ''N'' Load)] [Name ''Freeze'' Load]"

definition fnc_function :: obj where
  "fnc_function = Function \<lparr>fn_qualname = ''fnc'', fn_code = fnc_def, fn_globals = ''app''\<rparr>"

definition fnc_env :: env where
  "fnc_env = sample_env (Inr ''@Freeze def fnc(): return N'') (Module [fnc_def]) app_scope"

text \<open>\<^verbatim>\<open>key = Freeze(lambda: N)\<close>\<close>

definition key_tree :: ast where
  "key_tree =
     Module [Assign [Name ''key'' Store]
               (Call (Name ''Freeze'' Load) [Lambda (arguments [] []) (Name ''N'' Load)])]"

definition key_env :: env where
  "key_env = sample_env (Inr ''key = Freeze(lambda: N)'') key_tree app_scope"

text \<open>
  \<^verbatim>\<open>overwrite_with = Freeze(lambda: N, False, repeat())\<close>: the value of the option comes
  from a call, so the source and the namespace are the same whatever that value is.
\<close>

definition option_tree :: ast where
  "option_tree =
     Module [Assign [Name ''overwrite_with'' Store]
               (Call (Name ''Freeze'' Load)
                  [Lambda (arguments [] []) (Name ''N'' Load), Constant (VBool False),
                   Call (Name ''repeat'' Load) []])]"

definition option_env :: env where
  "option_env =
     sample_env (Inr ''overwrite_with = Freeze(lambda: N, False, repeat())'') option_tree
       app_scope"

section \<open>Constant Filtering\<close>

lemmas node_defs =
  ctx_node_def Module_def arg_def arguments_def FunctionDef_def ClassDef_def Assign_def Return_def
  Tuple_def BinOp_def Call_def Attribute_def Lambda_def Expr_def For_def Pass_def

lemma filter_step_kept:
  "filter_step ignore kv scope = (if kept ignore kv then scope else AList.delete (fst kv) scope)"
  by (simp add: filter_step_def kept_def)

text \<open>Whatever the items walked over, the loop removes the keys of those that fail the test.\<close>

lemma filter_loop_as_filter:
  "filter_loop ignore items scope =
     filter (\<lambda>kv. fst kv \<notin> fst ` {i \<in> set items. \<not> kept ignore i}) scope"
proof (induction items arbitrary: scope)
  case Nil
  then show ?case by (simp add: filter_loop_def)
next
  case (Cons i items)
  have step: "filter_loop ignore (i # items) scope = filter_loop ignore items (filter_step ignore i scope)"
    by (simp add: filter_loop_def)
  show ?case
    unfolding step Cons.IH
    by (auto simp: filter_step_kept AList.delete_eq intro!: filter_cong)
qed

lemma filter_loop_exact:
  assumes "distinct (map fst scope)" and "set items = set scope"
  shows "filter_loop ignore items scope = filter (kept ignore) scope"
proof -
  have "fst kv \<notin> fst ` {i \<in> set items. \<not> kept ignore i} \<longleftrightarrow> kept ignore kv"
    if "kv \<in> set scope" for kv
  proof
    assume "fst kv \<notin> fst ` {i \<in> set items. \<not> kept ignore i}"
    with that assms(2) show "kept ignore kv" by auto
  next
    assume k: "kept ignore kv"
    show "fst kv \<notin> fst ` {i \<in> set items. \<not> kept ignore i}"
    proof
      assume "fst kv \<in> fst ` {i \<in> set items. \<not> kept ignore i}"
      then obtain i where i: "i \<in> set scope" "\<not> kept ignore i" "fst i = fst kv"
        using assms(2) by auto
      from assms(1) i(1) that i(3) have "i = kv"
        by (metis eq_key_imp_eq_value prod.collapse)
      with i(2) k show False by simp
    qed
  qed
  then show ?thesis
    unfolding filter_loop_as_filter by (intro filter_cong) auto
qed

lemma filter_constants_kept:
  "distinct (map fst scope) \<Longrightarrow> filter_constants ignore scope = filter (kept ignore) scope"
  unfolding filter_constants_def by (intro filter_loop_exact) simp_all

text \<open>
  Claim C7. Constant Filtering reduces the Captured Scope (a dictionary, so with distinct
  keys) to exactly the entries whose value is an instance of one of the eight allow-listed
  classes and whose key is not in the Ignore Set, in their original order; and the loop
  gives that same result when it examines the entries in any other order.
\<close>

theorem constant_filtering_exact:
  assumes "distinct (map fst scope)"
  shows "filter_constants ignore scope =
           filter (\<lambda>(key, value).
                     isinstance value [TInt, TFloat, TComplex, TStr, TTuple, TBytes, TBool, TNoneType]
                     \<and> key \<notin> set ignore) scope
         \<and> (\<forall>items. set items = set scope \<longrightarrow>
               filter_loop ignore items scope = filter_constants ignore scope)"
proof -
  have k: "kept ignore = (\<lambda>(key, value).
             isinstance value [TInt, TFloat, TComplex, TStr, TTuple, TBytes, TBool, TNoneType]
             \<and> key \<notin> set ignore)"
    by (auto simp: kept_def constantTypes_def fun_eq_iff)
  have "filter_constants ignore scope = filter (kept ignore) scope"
    using assms by (rule filter_constants_kept)
  moreover have "filter_loop ignore items scope = filter (kept ignore) scope"
    if "set items = set scope" for items
    using assms that by (rule filter_loop_exact)
  ultimately show ?thesis unfolding k by simp
qed

theorem constant_filtering_exact_witness:
  "distinct (map fst sample_scope)
   \<and> filter_constants [''I''] sample_scope = [(''N'', VInt 3), (''S'', VStr ''a'')]
   \<and> set (rev sample_scope) = set sample_scope
   \<and> filter_loop [''I''] (rev sample_scope) sample_scope = [(''N'', VInt 3), (''S'', VStr ''a'')]"
proof -
  have d: "distinct (map fst sample_scope)" by (simp add: sample_scope_def)
  have r: "set (rev sample_scope) = set sample_scope" by simp
  note t = constant_filtering_exact [OF d, of "[''I'']"]
  have a: "filter_constants [''I''] sample_scope = [(''N'', VInt 3), (''S'', VStr ''a'')]"
    using t by (simp add: sample_scope_def isinstance_def)
  have b: "filter_loop [''I''] (rev sample_scope) sample_scope = filter_constants [''I''] sample_scope"
    using t r by blast
  show ?thesis using d r a b by simp
qed

section \<open>Scope Capture\<close>

lemma map_of_dict_update:
  "distinct (map fst other) \<Longrightarrow> map_of (dict_update d other) = map_of d ++ map_of other"
proof (induction other arbitrary: d)
  case Nil
  then show ?case by (simp add: dict_update_def)
next
  case (Cons kv other)
  obtain k v where kv: "kv = (k, v)" by (cases kv)
  have step: "dict_update d (kv # other) = dict_update (AList.update k v d) other"
    by (simp add: dict_update_def kv)
  from Cons.prems have none: "map_of other k = None"
    by (simp add: kv map_of_eq_None_iff)
  from Cons.prems have "distinct (map fst other)" by simp
  then have "map_of (dict_update (AList.update k v d) other) = map_of (AList.update k v d) ++ map_of other"
    by (rule Cons.IH)
  then show ?case
    unfolding step using none
    by (auto simp: kv update_conv' map_add_def fun_eq_iff split: option.splits)
qed

lemma distinct_dict_update:
  "distinct (map fst d) \<Longrightarrow> distinct (map fst (dict_update d other))"
proof (induction other arbitrary: d)
  case Nil
  then show ?case by (simp add: dict_update_def)
next
  case (Cons kv other)
  obtain k v where kv: "kv = (k, v)" by (cases kv)
  have step: "dict_update d (kv # other) = dict_update (AList.update k v d) other"
    by (simp add: dict_update_def kv)
  from Cons.prems have "distinct (map fst (AList.update k v d))"
    by (simp add: distinct_update)
  then show ?case unfolding step by (rule Cons.IH)
qed

text \<open>
  Claim C2. Scope Capture builds one mapping from the global and the local namespace of
  the frame: a name bound in both gets the local value when \<open>enforce_globals\<close> is false and
  the global value when it is true; a name bound in one namespace only keeps that binding
  in either mode; no other name is bound; and the result is again a dictionary.
\<close>

theorem scope_capture_precedence:
  assumes "distinct (map fst (f_globals fr))" and "distinct (map fst (f_locals fr))"
  shows "(map_of (f_globals fr) k = Some g \<and> map_of (f_locals fr) k = Some l \<longrightarrow>
            map_of (capture_scope False fr) k = Some l \<and>
            map_of (capture_scope True fr) k = Some g)
       \<and> (map_of (f_globals fr) k = Some g \<and> map_of (f_locals fr) k = None \<longrightarrow>
            map_of (capture_scope enforce_globals fr) k = Some g)
       \<and> (map_of (f_globals fr) k = None \<and> map_of (f_locals fr) k = Some l \<longrightarrow>
            map_of (capture_scope enforce_globals fr) k = Some l)
       \<and> (map_of (f_globals fr) k = None \<and> map_of (f_locals fr) k = None \<longrightarrow>
            map_of (capture_scope enforce_globals fr) k = None)
       \<and> distinct (map fst (capture_scope enforce_globals fr))"
proof -
  have f: "map_of (capture_scope False fr) = map_of (f_globals fr) ++ map_of (f_locals fr)"
    using assms(2) by (simp add: capture_scope_def map_of_dict_update)
  have t: "map_of (capture_scope True fr) = map_of (f_locals fr) ++ map_of (f_globals fr)"
    using assms(1) by (simp add: capture_scope_def map_of_dict_update)
  have d: "distinct (map fst (capture_scope enforce_globals fr))"
    using assms by (simp add: capture_scope_def distinct_dict_update)
  show ?thesis
    using d by (cases enforce_globals) (simp_all add: f t map_add_def)
qed

theorem scope_capture_precedence_witness:
  "distinct (map fst (f_globals sample_frame)) \<and> distinct (map fst (f_locals sample_frame))
   \<and> map_of (f_globals sample_frame) ''X'' = Some (VInt 1)
   \<and> map_of (f_locals sample_frame) ''X'' = Some (VInt 10)
   \<and> map_of (capture_scope False sample_frame) ''X'' = Some (VInt 10)
   \<and> map_of (capture_scope True sample_frame) ''X'' = Some (VInt 1)"
proof -
  have g: "distinct (map fst (f_globals sample_frame))" by (simp add: sample_frame_def)
  have l: "distinct (map fst (f_locals sample_frame))" by (simp add: sample_frame_def)
  have xg: "map_of (f_globals sample_frame) ''X'' = Some (VInt 1)" by (simp add: sample_frame_def)
  have xl: "map_of (f_locals sample_frame) ''X'' = Some (VInt 10)" by (simp add: sample_frame_def)
  from scope_capture_precedence [OF g l, of "''X''" "VInt 1" "VInt 10"] xg xl
  have "map_of (capture_scope False sample_frame) ''X'' = Some (VInt 10) \<and>
        map_of (capture_scope True sample_frame) ''X'' = Some (VInt 1)"
    by blast
  with g l xg xl show ?thesis by simp
qed

section \<open>Tree Substitution\<close>

text \<open>
  A name that is not in the dictionary is not put back by the walk, and none of its
  occurrences changes.
\<close>

lemma absent_stays:
  "map_of d k = None \<longrightarrow>
     map_of (snd (visit d t)) k = None \<and>
     (case fst (visit d t) of Some t' \<Rightarrow> occ k t' = occ k t | None \<Rightarrow> occ k t = [])"
  "map_of d k = None \<longrightarrow>
     map_of (snd (generic_visit d fs)) k = None \<and>
     occ_fields k (fst (generic_visit d fs)) = occ_fields k fs"
  "map_of d k = None \<longrightarrow>
     map_of (snd (visit_list d xs)) k = None \<and>
     occ_list k (fst (visit_list d xs)) = occ_list k xs"
  by (induction d t and d fs and d xs rule: visit_generic_visit_visit_list.induct)
     (auto split: prod.splits option.splits if_splits simp: visit_Name_def delete_conv')

text \<open>
  A name that is in the dictionary and is only read in a tree stays in the dictionary,
  and the walk leaves no occurrence of it.
\<close>

lemma present_loads:
  "map_of d k = Some w \<longrightarrow> set (occ k t) \<subseteq> {Load} \<longrightarrow>
     map_of (snd (visit d t)) k = Some w \<and>
     (case fst (visit d t) of Some t' \<Rightarrow> occ k t' = [] | None \<Rightarrow> True)"
  "map_of d k = Some w \<longrightarrow> set (occ_fields k fs) \<subseteq> {Load} \<longrightarrow>
     map_of (snd (generic_visit d fs)) k = Some w \<and>
     occ_fields k (fst (generic_visit d fs)) = []"
  "map_of d k = Some w \<longrightarrow> set (occ_list k xs) \<subseteq> {Load} \<longrightarrow>
     map_of (snd (visit_list d xs)) k = Some w \<and>
     occ_list k (fst (visit_list d xs)) = []"
  by (induction d t and d fs and d xs rule: visit_generic_visit_visit_list.induct)
     (auto split: prod.splits option.splits if_splits simp: visit_Name_def delete_conv')

lemma visit_read_write_def: "visit [(''X'', VInt 5)] read_write_def = (Some read_write_frozen, [])"
  by (simp add: read_write_def_def read_write_frozen_def node_defs visit_Name_def)

lemma visit_loop_def: "visit [(''X'', VInt 5)] loop_def = (Some loop_frozen, [])"
  by (simp add: loop_def_def loop_frozen_def node_defs visit_Name_def)

lemma spec_substitute_append:
  "spec_substitute d (xs @ ys) =
     (case spec_substitute d xs of (xs', d1) \<Rightarrow>
        (case spec_substitute d1 ys of (ys', d2) \<Rightarrow> (xs' @ ys', d2)))"
  by (induction d xs rule: spec_substitute.induct) (auto split: prod.splits option.splits)

text \<open>
  The walk does to the nodes it reaches, in the order it reaches them, what the rule of
  the specification says, and leaves the dictionary that the rule leaves.
\<close>

lemma walk_refines:
  "(case fst (visit d t) of Some t' \<Rightarrow> leaves t' | None \<Rightarrow> []) = fst (spec_substitute d (leaves t))
   \<and> snd (visit d t) = snd (spec_substitute d (leaves t))"
  "leaves_fields (fst (generic_visit d fs)) = fst (spec_substitute d (leaves_fields fs))
   \<and> snd (generic_visit d fs) = snd (spec_substitute d (leaves_fields fs))"
  "leaves_list (fst (visit_list d xs)) = fst (spec_substitute d (leaves_list xs))
   \<and> snd (visit_list d xs) = snd (spec_substitute d (leaves_list xs))"
  by (induction d t and d fs and d xs rule: visit_generic_visit_visit_list.induct)
     (auto split: prod.splits option.splits if_splits simp: visit_Name_def spec_substitute_append)

lemma refs_append: "refs k (xs @ ys) = refs k xs @ refs k ys"
  by (induction k xs rule: refs.induct) auto

lemma occ_refs:
  "occ k t = refs k (leaves t)"
  "occ_fields k fs = refs k (leaves_fields fs)"
  "occ_list k xs = refs k (leaves_list xs)"
  by (induction k t and k fs and k xs rule: occ_occ_fields_occ_list.induct)
     (auto simp: refs_append)

lemma spec_substitute_absent:
  "map_of d k = None \<Longrightarrow>
     refs k (fst (spec_substitute d ls)) = refs k ls
     \<and> map_of (snd (spec_substitute d ls)) k = None"
  by (induction d ls rule: spec_substitute.induct)
     (auto split: prod.splits option.splits if_splits simp: delete_conv')

lemma spec_substitute_present:
  "map_of d k = Some w \<Longrightarrow>
     refs k (fst (spec_substitute d ls)) = dropWhile (\<lambda>c. c = Load) (refs k ls)
     \<and> map_of (snd (spec_substitute d ls)) k
         = (if list_all (\<lambda>c. c = Load) (refs k ls) then Some w else None)"
proof (induction d ls rule: spec_substitute.induct)
  case (1 d)
  then show ?case by simp
next
  case (2 d v rest)
  then show ?case by (auto split: prod.splits)
next
  case (3 d x ctx rest)
  show ?case
  proof (cases "map_of d x")
    case None
    with 3 show ?thesis by (auto split: prod.splits)
  next
    case (Some v)
    show ?thesis
    proof (cases "ctx = Load")
      case True
      with 3 Some show ?thesis by (auto split: prod.splits)
    next
      case False
      show ?thesis
      proof (cases "x = k")
        case True
        then have "map_of (AList.delete x d) k = None" by (simp add: delete_conv')
        from spec_substitute_absent [OF this, of rest] True False Some
        show ?thesis by (auto split: prod.splits)
      next
        case ne: False
        with 3 have "map_of (AList.delete x d) k = Some w" by simp
        with 3 Some False ne show ?thesis by (auto split: prod.splits)
      qed
    qed
  qed
qed

text \<open>
  For a name in the dictionary: its reads up to its first write disappear from the tree,
  everything from the first write on stays, and the entry survives the walk exactly when
  the name is never written.
\<close>

lemma occ_dropWhile:
  assumes "map_of d k = Some w"
  shows "(case fst (visit d t) of Some t' \<Rightarrow> occ k t' | None \<Rightarrow> [])
           = dropWhile (\<lambda>c. c = Load) (occ k t)
         \<and> map_of (snd (visit d t)) k
             = (if list_all (\<lambda>c. c = Load) (occ k t) then Some w else None)"
proof -
  have "(case fst (visit d t) of Some t' \<Rightarrow> occ k t' | None \<Rightarrow> [])
          = refs k (case fst (visit d t) of Some t' \<Rightarrow> leaves t' | None \<Rightarrow> [])"
    by (simp add: occ_refs split: option.splits)
  then show ?thesis
    using spec_substitute_present [OF assms, of "leaves t"] by (simp add: walk_refines occ_refs)
qed

text \<open>
  Claim C1. During Tree Substitution, a \<^verbatim>\<open>Name\<close> node that is read (\<^verbatim>\<open>Load\<close>) while
  its identifier is in the filtered scope is replaced by a \<^verbatim>\<open>Constant\<close> node carrying the
  captured value, and the dictionary is left as it is; a \<^verbatim>\<open>Name\<close> node in any other
  context whose identifier is in the dictionary is returned unchanged and its entry is
  deleted. The walk of a node, of the fields of a node and of the items of a list applies
  this rule to the identifier and literal nodes it reaches, one after the other with the
  dictionary handed on, so an eviction holds for every node visited later: of a name in
  the dictionary the reads before its first write are replaced, every occurrence from the
  first write on stays, and the entry is left exactly when the name is never written;
  a name that is absent stays absent and none of its occurrences changes. For
  \<^verbatim>\<open>def f(): a = X; X = 10; b = X; return (a, b)\<close> with \<^verbatim>\<open>X = 5\<close> captured, the first
  read becomes the literal 5 and the read after the write stays the variable \<^verbatim>\<open>X\<close>.
\<close>

theorem tree_substitution_read_write:
  "(map_of d x = Some v \<longrightarrow> visit d (Name x Load) = (Some (Constant v), d))
   \<and> (map_of d x = Some v \<and> ctx \<noteq> Load \<longrightarrow>
        visit d (Name x ctx) = (Some (Name x ctx), AList.delete x d) \<and>
        map_of (AList.delete x d) x = None)
   \<and> (case fst (visit d t) of Some t' \<Rightarrow> leaves t' | None \<Rightarrow> [])
        = fst (spec_substitute d (leaves t))
   \<and> snd (visit d t) = snd (spec_substitute d (leaves t))
   \<and> leaves_fields (fst (generic_visit d flds)) = fst (spec_substitute d (leaves_fields flds))
   \<and> snd (generic_visit d flds) = snd (spec_substitute d (leaves_fields flds))
   \<and> leaves_list (fst (visit_list d nodes)) = fst (spec_substitute d (leaves_list nodes))
   \<and> snd (visit_list d nodes) = snd (spec_substitute d (leaves_list nodes))
   \<and> (map_of d x = Some v \<longrightarrow>
        (case fst (visit d t) of Some t' \<Rightarrow> occ x t' | None \<Rightarrow> [])
          = dropWhile (\<lambda>c. c = Load) (occ x t) \<and>
        map_of (snd (visit d t)) x
          = (if list_all (\<lambda>c. c = Load) (occ x t) then Some v else None))
   \<and> (map_of d x = None \<longrightarrow>
        map_of (snd (visit d t)) x = None \<and>
        (\<forall>t'. fst (visit d t) = Some t' \<longrightarrow> occ x t' = occ x t) \<and>
        map_of (snd (generic_visit d flds)) x = None \<and>
        occ_fields x (fst (generic_visit d flds)) = occ_fields x flds \<and>
        map_of (snd (visit_list d nodes)) x = None \<and>
        occ_list x (fst (visit_list d nodes)) = occ_list x nodes)
   \<and> visit [(''X'', VInt 5)] read_write_def = (Some read_write_frozen, [])"
proof -
  have a: "map_of d x = Some v \<longrightarrow> visit d (Name x Load) = (Some (Constant v), d)"
    by (simp add: visit_Name_def)
  have b: "map_of d x = Some v \<and> ctx \<noteq> Load \<longrightarrow>
        visit d (Name x ctx) = (Some (Name x ctx), AList.delete x d) \<and>
        map_of (AList.delete x d) x = None"
    by (simp add: visit_Name_def delete_conv')
  have c: "map_of d x = None \<longrightarrow>
        map_of (snd (visit d t)) x = None \<and>
        (\<forall>t'. fst (visit d t) = Some t' \<longrightarrow> occ x t' = occ x t)"
    using absent_stays(1) [of d x t] by (auto split: option.splits)
  have e: "map_of d x = Some v \<longrightarrow>
        (case fst (visit d t) of Some t' \<Rightarrow> occ x t' | None \<Rightarrow> [])
          = dropWhile (\<lambda>c. c = Load) (occ x t) \<and>
        map_of (snd (visit d t)) x
          = (if list_all (\<lambda>c. c = Load) (occ x t) then Some v else None)"
    using occ_dropWhile [of d x v t] by blast
  show ?thesis
    using a b c e walk_refines(1) [of d t] walk_refines(2) [of d flds] walk_refines(3) [of d nodes]
          absent_stays(2) [of d x flds] absent_stays(3) [of d x nodes] visit_read_write_def
    by blast
qed

theorem tree_substitution_read_write_witness:
  "map_of [(''X'', VInt 5)] ''X'' = Some (VInt 5)
   \<and> visit [(''X'', VInt 5)] (Name ''X'' Load) = (Some (Constant (VInt 5)), [(''X'', VInt 5)])
   \<and> Store \<noteq> Load
   \<and> visit [(''X'', VInt 5)] (Name ''X'' Store) = (Some (Name ''X'' Store), [])
   \<and> occ ''X'' loop_def = [Load, Store, Load]
   \<and> fst (visit [(''X'', VInt 5)] loop_def) = Some loop_frozen
   \<and> occ ''X'' loop_frozen = [Store, Load]
   \<and> map_of (snd (visit [(''X'', VInt 5)] loop_def)) ''X'' = None
   \<and> leaves loop_frozen = fst (spec_substitute [(''X'', VInt 5)] (leaves loop_def))
   \<and> map_of [] ''X'' = (None :: pyval option)
   \<and> fst (visit [] (Assign [Name ''b'' Store] (Name ''X'' Load)))
       = Some (Assign [Name ''b'' Store] (Name ''X'' Load))
   \<and> map_of (snd (visit [] (Assign [Name ''b'' Store] (Name ''X'' Load)))) ''X'' = None"
proof -
  have p: "map_of [(''X'', VInt 5)] ''X'' = Some (VInt 5)" by simp
  have q: "map_of [] ''X'' = (None :: pyval option)" by simp
  have s: "Store \<noteq> Load" by simp
  have u: "fst (visit [] (Assign [Name ''b'' Store] (Name ''X'' Load)))
             = Some (Assign [Name ''b'' Store] (Name ''X'' Load))"
    by (simp add: node_defs visit_Name_def)
  have o: "occ ''X'' loop_def = [Load, Store, Load]"
    by (simp add: loop_def_def node_defs)
  have l: "fst (visit [(''X'', VInt 5)] loop_def) = Some loop_frozen"
    by (simp add: visit_loop_def)
  note t = tree_substitution_read_write [of "[(''X'', VInt 5)]" "''X''" "VInt 5" Store loop_def]
  from t p s
  have a: "visit [(''X'', VInt 5)] (Name ''X'' Load) = (Some (Constant (VInt 5)), [(''X'', VInt 5)])"
    and b: "visit [(''X'', VInt 5)] (Name ''X'' Store) = (Some (Name ''X'' Store), [])"
    by simp_all
  from t p have "(case fst (visit [(''X'', VInt 5)] loop_def) of Some t' \<Rightarrow> occ ''X'' t' | None \<Rightarrow> [])
                   = dropWhile (\<lambda>c. c = Load) (occ ''X'' loop_def)
                 \<and> map_of (snd (visit [(''X'', VInt 5)] loop_def)) ''X''
                     = (if list_all (\<lambda>c. c = Load) (occ ''X'' loop_def) then Some (VInt 5) else None)"
    by blast
  then have f: "occ ''X'' loop_frozen = [Store, Load]"
    and g: "map_of (snd (visit [(''X'', VInt 5)] loop_def)) ''X'' = None"
    by (simp_all add: l o)
  from t have "(case fst (visit [(''X'', VInt 5)] loop_def) of Some t' \<Rightarrow> leaves t' | None \<Rightarrow> [])
                 = fst (spec_substitute [(''X'', VInt 5)] (leaves loop_def))"
    by blast
  then have h: "leaves loop_frozen = fst (spec_substitute [(''X'', VInt 5)] (leaves loop_def))"
    by (simp add: l)
  from tree_substitution_read_write
         [of "[]" "''X''" _ _ "Assign [Name ''b'' Store] (Name ''X'' Load)"] q
  have c: "map_of (snd (visit [] (Assign [Name ''b'' Store] (Name ''X'' Load)))) ''X'' = None"
    by blast
  from p a s b o l f g h q u c show ?thesis by blast
qed

lemma isinstance_strict_subclass:
  "\<exists>t \<in> set (tl (mro (type_of w))). t \<in> set constantTypes \<Longrightarrow> isinstance w constantTypes"
  unfolding isinstance_def by (cases "mro (type_of w)") auto

text \<open>
  Claim C10. The allow-list test is an instance-of test: a captured binding whose value
  is an instance of a strict subclass of an allow-listed class (its own class is not
  listed, a class further up its MRO is) and whose name is not ignored survives Constant
  Filtering; a read of the name is replaced by a \<^verbatim>\<open>Constant\<close> carrying that value; and
  in a tree that only reads the name, every occurrence is replaced.
\<close>

theorem subclass_instances_are_frozen:
  assumes "distinct (map fst scope)" and "map_of scope k = Some w"
    and "type_of w \<notin> set constantTypes"
    and "\<exists>t \<in> set (tl (mro (type_of w))). t \<in> set constantTypes"
    and "k \<notin> set ignore"
  shows "map_of (filter_constants ignore scope) k = Some w
       \<and> visit (filter_constants ignore scope) (Name k Load)
           = (Some (Constant w), filter_constants ignore scope)
       \<and> (set (occ k t) \<subseteq> {Load} \<longrightarrow>
            map_of (snd (visit (filter_constants ignore scope) t)) k = Some w \<and>
            (\<forall>t'. fst (visit (filter_constants ignore scope) t) = Some t' \<longrightarrow> occ k t' = []))"
proof -
  have "kept ignore (k, w)"
    using assms(4,5) by (simp add: kept_def isinstance_strict_subclass)
  with assms(2) have "map_of (filter (kept ignore) scope) k = Some w"
    by (induction scope) (auto split: if_splits)
  then have m: "map_of (filter_constants ignore scope) k = Some w"
    using assms(1) by (simp add: filter_constants_kept)
  then have v: "visit (filter_constants ignore scope) (Name k Load)
                  = (Some (Constant w), filter_constants ignore scope)"
    by (simp add: visit_Name_def)
  show ?thesis
    using m v present_loads(1) [of "filter_constants ignore scope" k w t]
    by (auto split: option.splits)
qed

theorem subclass_instances_are_frozen_witness:
  "distinct (map fst subclass_scope)
   \<and> map_of subclass_scope ''N'' = Some (VSub ''MyInt'' (VInt 5))
   \<and> type_of (VSub ''MyInt'' (VInt 5)) \<notin> set constantTypes
   \<and> TInt \<in> set (tl (mro (type_of (VSub ''MyInt'' (VInt 5))))) \<and> TInt \<in> set constantTypes
   \<and> filter_constants [] subclass_scope = [(''N'', VSub ''MyInt'' (VInt 5))]
   \<and> occ ''N'' power_body = [Load]
   \<and> fst (visit (filter_constants [] subclass_scope) power_body)
       = Some (Return (BinOp (Name ''x'' Load) ''Pow'' (Constant (VSub ''MyInt'' (VInt 5)))))
   \<and> occ ''N'' (Return (BinOp (Name ''x'' Load) ''Pow'' (Constant (VSub ''MyInt'' (VInt 5))))) = []"
proof -
  have d: "distinct (map fst subclass_scope)" by (simp add: subclass_scope_def)
  have m: "map_of subclass_scope ''N'' = Some (VSub ''MyInt'' (VInt 5))"
    by (simp add: subclass_scope_def)
  have ty: "type_of (VSub ''MyInt'' (VInt 5)) \<notin> set constantTypes"
    by (simp add: constantTypes_def)
  have sub: "\<exists>t \<in> set (tl (mro (type_of (VSub ''MyInt'' (VInt 5))))). t \<in> set constantTypes"
    by (simp add: constantTypes_def)
  have ig: "''N'' \<notin> set []" by simp
  have f: "filter_constants [] subclass_scope = [(''N'', VSub ''MyInt'' (VInt 5))]"
    by (simp add: filter_constants_def filter_loop_def filter_step_def subclass_scope_def
                  isinstance_def constantTypes_def)
  have o: "occ ''N'' power_body = [Load]" by (simp add: power_body_def node_defs)
  have r: "fst (visit (filter_constants [] subclass_scope) power_body)
       = Some (Return (BinOp (Name ''x'' Load) ''Pow'' (Constant (VSub ''MyInt'' (VInt 5)))))"
    by (simp add: f power_body_def node_defs visit_Name_def)
  from subclass_instances_are_frozen [OF d m ty sub ig, of power_body] o r
  have "occ ''N'' (Return (BinOp (Name ''x'' Load) ''Pow'' (Constant (VSub ''MyInt'' (VInt 5))))) = []"
    by simp
  with d m ty f o r show ?thesis by (simp add: constantTypes_def)
qed

section \<open>Evaluating Freeze on the samples\<close>

lemmas freeze_defs =
  Freeze_def Freeze_run_def prologue_def try_suite_def parse_target_def select_frame_def
  transform_def strip_self_def substitute_def splice_def rebind_def exec_plain_def
  decorators_after_walk_def appended_def filter_constants_def filter_loop_def filter_step_def
  isinstance_def constantTypes_def capture_scope_def dict_update_def catches_def
  raise_FreezeError_def Freeze_ref_def freezer_module_def visit_Name_def
  module_frame_def sample_env_def app_scope_def Let_def
  own_locals_def loop_locals_def stopped_loop_locals_def locals_after_def looked_up_def Freeze_varnames_def
  dict_object_def sample_names_def freezer_globals_def plain_arguments_def plain_arg_def
  inert_statement_def

lemma freeze_run_lambda:
  "Freeze_run lambda_env (Function lambda_function) False [] [] 0
     = Inr (Function lambda_frozen, [(''N'', VInt 3)])"
  by (simp add: freeze_defs node_defs lambda_env_def lambda_tree_def lambda_function_def
                lambda_frozen_def)

lemma freeze_lambda:
  "Freeze lambda_env (Function lambda_function) False [] [] 0
     = Inr (Frozen (Function lambda_frozen))"
  by (simp add: Freeze_def freeze_run_lambda)

section \<open>Failures before the tree is touched\<close>

text \<open>
  Whatever goes wrong in the outer \<^verbatim>\<open>try\<close>, what leaves the statement is an
  \<^verbatim>\<open>UnboundLocalError\<close>: for \<^verbatim>\<open>frame\<close> when the source could not be retrieved or
  parsed, for \<^verbatim>\<open>e\<close> otherwise.
\<close>

lemma prologue_error:
  "prologue env fnc enforce_globals depth = Inl x \<Longrightarrow>
     x = Exn UnboundLocalError [''frame''] \<or> x = Exn UnboundLocalError [''e'']"
  by (auto simp: prologue_def try_suite_def raise_FreezeError_def catches_def Let_def
           split: sum.splits prod.splits option.splits if_splits)

lemma prologue_source_failure:
  "inspect_getsource env fnc = Inl e \<Longrightarrow>
     prologue env fnc enforce_globals depth = Inl (Exn UnboundLocalError [''frame''])"
  by (simp add: prologue_def try_suite_def)

lemma prologue_parse_failure:
  "inspect_getsource env fnc = Inr src \<Longrightarrow> ast_parse env src = Inl e \<Longrightarrow>
     prologue env fnc enforce_globals depth = Inl (Exn UnboundLocalError [''frame''])"
  by (simp add: prologue_def try_suite_def parse_target_def Let_def)

text \<open>
  Claim C3 (the code departs from it). For a function whose source cannot be retrieved,
  \<^verbatim>\<open>Freeze\<close> does not raise a \<^verbatim>\<open>FreezeError\<close> naming the target and the type of the
  cause: the handler reads the unbound local \<^verbatim>\<open>e\<close>, the \<^verbatim>\<open>finally\<close> suite deletes
  the unbound local \<^verbatim>\<open>frame\<close>, and an \<^verbatim>\<open>UnboundLocalError\<close> escapes.
\<close>

theorem freeze_unreadable_source:
  "Freeze unreadable_env plain_function False [] [] 0 = Inl (Exn UnboundLocalError [''frame''])"
  by (simp add: freeze_defs node_defs unreadable_env_def plain_function_def)

section \<open>Class targets\<close>

text \<open>
  Claim C4 (the code departs from it). For the class \<^verbatim>\<open>A\<close> decorated with
  \<^verbatim>\<open>@Freeze\<close>, whose source is retrieved and parsed, the call does not complete: the
  executed module binds \<^verbatim>\<open>A\<close> to a new class, a class has no \<^verbatim>\<open>__code__\<close>, and line
  158 raises \<^verbatim>\<open>AttributeError\<close>.
\<close>

theorem freeze_class_target:
  "Freeze class_env (Class ''A'') False [] [] 0 = Inl (Exn AttributeError [''A'', ''__code__''])"
  by (simp add: freeze_defs node_defs class_env_def class_tree_def)

section \<open>Self-Reference Stripping\<close>

lemma getattr_error_class: "getattr node a = Inl e \<Longrightarrow> exn_type e = AttributeError"
  by (cases node) (auto split: option.splits if_splits)

lemma length_walked: "length (walked d nodes) = length nodes"
  by (induction d nodes rule: walked.induct) (auto split: prod.splits option.splits)

text \<open>
  Entries that are a bare name or a call of a bare name are kept in their order, and the
  entry for \<^verbatim>\<open>Freeze\<close> is removed; the arguments of a kept call are the ones the walk
  has left.
\<close>

lemma name_and_call_decorators_kept:
  "transform (Module [stacked_def]) stacked_def app_scope []
     = Inr (Module [stacked_frozen], stacked_frozen, True, [(''N'', VInt 3)])"
  by (simp add: freeze_defs node_defs stacked_def_def stacked_frozen_def)

text \<open>An entry that calls an attribute makes the whole operation raise.\<close>

lemma attribute_call_decorator_raises:
  "transform (Module [routed_def]) routed_def app_scope []
     = Inl (Exn AttributeError [''Attribute'', ''id''])"
  by (simp add: freeze_defs node_defs routed_def_def)

text \<open>
  Claim C5 (the code departs from it). With the decorators \<^verbatim>\<open>@functools.cache\<close> and
  \<^verbatim>\<open>@Freeze\<close>, the definition that is compiled has an empty decorator list: the entry
  \<^verbatim>\<open>functools.cache\<close>, an attribute and neither a name nor a call, is dropped together
  with the entry for \<^verbatim>\<open>Freeze\<close>.
\<close>

theorem attribute_decorator_dropped:
  "transform (Module [cached_def]) cached_def app_scope []
     = Inr (Module [cached_frozen], cached_frozen, True, [(''N'', VInt 3)])
   \<and> getattr cached_def ''decorator_list''
       = Inr (Lst [Attribute (Name ''functools'' Load) ''cache'' Load, Name ''Freeze'' Load])
   \<and> getattr cached_frozen ''decorator_list'' = Inr (Lst [])
   \<and> Freeze cached_env plain_function False [] [] 0
       = Inr (Frozen (Function \<lparr>fn_qualname = ''f'', fn_code = cached_frozen,
                                 fn_globals = ''app''\<rparr>))"
  by (simp add: freeze_defs node_defs cached_env_def cached_def_def cached_frozen_def
                plain_function_def)

text \<open>
  Claim C8, as the code has it. When the parsed node of the target has no decorator list
  and is not an assignment statement, the \<^verbatim>\<open>AttributeError\<close> of the failed lookup of
  \<^verbatim>\<open>decorator_list\<close> reaches the caller as it is, not as a \<^verbatim>\<open>FreezeError\<close>.
\<close>

theorem missing_pattern_raises_attribute_error:
  assumes "is_function_or_class fnc" and "fnc \<noteq> NotInitialized"
    and "prologue env fnc enforce_globals depth = Inr (astMod, astTgt, scope)"
    and "getattr astTgt ''decorator_list'' = Inl e"
    and "node_class astTgt \<noteq> ''Assign''"
  shows "Freeze env fnc enforce_globals overwrite_with ignore depth = Inl e
         \<and> exn_type e = AttributeError \<and> exn_type e \<noteq> FreezeError"
proof -
  have c: "exn_type e = AttributeError"
    using assms(4) by (rule getattr_error_class)
  then have "catches AttributeError e" by (simp add: catches_def)
  then have "strip_self scope astTgt = Inl e"
    using assms(4,5) by (simp add: strip_self_def)
  then have "transform astMod astTgt scope ignore = Inl e"
    by (simp add: transform_def)
  then have "Freeze env fnc enforce_globals overwrite_with ignore depth = Inl e"
    using assms(1,2,3) by (simp add: Freeze_def Freeze_run_def)
  with c show ?thesis by simp
qed

theorem missing_pattern_raises_attribute_error_witness:
  "is_function_or_class (Function wrapped_function) \<and> Function wrapped_function \<noteq> NotInitialized
   \<and> prologue bare_call_env (Function wrapped_function) False 0
        = Inr (Module [bare_call_stmt], bare_call_stmt, app_scope)
   \<and> getattr bare_call_stmt ''decorator_list'' = Inl (Exn AttributeError [''Expr'', ''decorator_list''])
   \<and> node_class bare_call_stmt \<noteq> ''Assign''
   \<and> Freeze bare_call_env (Function wrapped_function) False [] [] 0
        = Inl (Exn AttributeError [''Expr'', ''decorator_list''])"
proof -
  have a: "is_function_or_class (Function wrapped_function)" by simp
  have b: "Function wrapped_function \<noteq> NotInitialized" by simp
  have p: "prologue bare_call_env (Function wrapped_function) False 0
             = Inr (Module [bare_call_stmt], bare_call_stmt, app_scope)"
    by (simp add: prologue_def try_suite_def parse_target_def select_frame_def capture_scope_def
                  dict_update_def bare_call_env_def sample_env_def module_frame_def Module_def
                  app_scope_def)
  have g: "getattr bare_call_stmt ''decorator_list''
             = Inl (Exn AttributeError [''Expr'', ''decorator_list''])"
    by (simp add: bare_call_stmt_def Expr_def)
  have n: "node_class bare_call_stmt \<noteq> ''Assign''"
    by (simp add: bare_call_stmt_def Expr_def)
  from missing_pattern_raises_attribute_error [OF a b p g n, of "[]" "[]"] a b p g n
  show ?thesis by simp
qed

text \<open>
  Claim C8, as the spec states it, fails: the node parsed for \<^verbatim>\<open>h = wrap(lambda: N)\<close>
  has no decorator list and is an assignment whose value calls \<^verbatim>\<open>wrap\<close>, not this
  operation, yet no error is raised: the first argument of the call is transformed and
  a callable is returned.
\<close>

theorem call_to_another_function_counterexample:
  "getattr (Assign [Name ''h'' Store]
              (Call (Name ''wrap'' Load) [Lambda (arguments [] []) (Name ''N'' Load)]))
           ''decorator_list'' = Inl (Exn AttributeError [''Assign'', ''decorator_list''])
   \<and> map_of app_scope ''wrap'' = Some (VFunction ''app.wrap'')
   \<and> VFunction ''app.wrap'' \<noteq> Freeze_ref
   \<and> Freeze wrapped_env (Function wrapped_function) False [] [] 0
        = Inr (Frozen (Function \<lparr>fn_qualname = ''<lambda>'',
                                  fn_code = Lambda (arguments [] []) (Constant (VInt 3)),
                                  fn_globals = ''freezer''\<rparr>))"
proof -
  have "Freeze wrapped_env (Function wrapped_function) False [] [] 0
        = Inr (Frozen (Function \<lparr>fn_qualname = ''<lambda>'',
                                  fn_code = Lambda (arguments [] []) (Constant (VInt 3)),
                                  fn_globals = ''freezer''\<rparr>))"
    by (simp add: freeze_defs node_defs wrapped_env_def wrapped_tree_def wrapped_function_def)
  then show ?thesis
    by (simp add: Assign_def app_scope_def Freeze_ref_def)
qed

section \<open>Re-synthesis\<close>

text \<open>
  The walk inlines the instance of a subclass of \<^verbatim>\<open>int\<close>, and \<^verbatim>\<open>compile\<close> then
  refuses the tree: for such a target the call ends in a \<^verbatim>\<open>TypeError\<close>.
\<close>

lemma subclass_constant_refused_by_compile:
  "Freeze subclass_env power_function False [] [] 0
     = Inl (Exn TypeError [''got an invalid type in Constant''])"
  by (simp add: freeze_defs node_defs subclass_env_def power_def_def power_function_def)

text \<open>
  A decorator that is kept is evaluated by the executed module, in the scope of
  \<^verbatim>\<open>Freeze\<close>, where the names of the defining module are not known.
\<close>

lemma kept_decorator_raises_name_error:
  "Freeze kept_env plain_function False [] [] 0 = Inl (Exn NameError [''wrap''])"
  by (simp add: freeze_defs node_defs kept_env_def kept_def_def plain_function_def
                builtin_names_def)

text \<open>
  A function that is decorated gets the new code and stays the object it was, with the
  globals of the module that defines it.
\<close>

lemma decorated_function_keeps_its_globals:
  "Freeze simple_env plain_function False [] [] 0
     = Inr (Frozen (Function \<lparr>fn_qualname = ''f'',
                               fn_code = FunctionDef ''f'' (arguments [] [])
                                           [Return (Constant (VInt 3))] [],
                               fn_globals = ''app''\<rparr>))"
  by (simp add: freeze_defs node_defs simple_env_def simple_def_def plain_function_def)

text \<open>
  Claim C6 (the code departs from it). The lambda of \<^verbatim>\<open>g = Freeze(lambda x: x ** N)\<close>
  is defined in the module \<^verbatim>\<open>app\<close>; the compiled module is executed in the scope of
  \<^verbatim>\<open>Freeze\<close>, not in the defining scope of the target, and the callable returned has the
  namespace of the module \<^verbatim>\<open>freezer\<close> as its globals.
\<close>

theorem lambda_gets_freezer_globals:
  "fn_globals lambda_function = ''app''
   \<and> Freeze lambda_env (Function lambda_function) False [] [] 0
       = Inr (Frozen (Function \<lparr>fn_qualname = ''<lambda>'',
                                 fn_code = Lambda (arguments [arg ''x''] [])
                                             (BinOp (Name ''x'' Load) ''Pow'' (Constant (VInt 3))),
                                 fn_globals = ''freezer''\<rparr>))
   \<and> ''freezer'' \<noteq> ''app''"
  using freeze_lambda by (simp add: lambda_function_def lambda_frozen_def)

section \<open>Names shared with the variables of Freeze\<close>

text \<open>
  A definition named like a variable of \<^verbatim>\<open>Freeze\<close> is looked up in vain: for
  \<^verbatim>\<open>def fnc\<close> line 158 finds the target itself and the old code stays; for
  \<^verbatim>\<open>key = Freeze(...)\<close> line 160 returns the last key of the filtering loop.
\<close>

lemma target_named_fnc_keeps_its_code:
  "Freeze fnc_env fnc_function False [] [] 0 = Inr (Frozen fnc_function)"
  by (simp add: freeze_defs node_defs fnc_env_def fnc_def_def fnc_function_def)

lemma target_named_key_returns_a_key:
  "Freeze key_env (Function wrapped_function) False [] [] 0
     = Inr (Frozen (Instance (VStr ''repeat'')))"
  by (simp add: freeze_defs node_defs key_env_def key_tree_def wrapped_function_def)

text \<open>
  Claim C9 (the code departs from it). For
  \<^verbatim>\<open>overwrite_with = Freeze(lambda: N, False, repeat())\<close> the name looked up on line 160
  is the parameter \<^verbatim>\<open>overwrite_with\<close> of \<^verbatim>\<open>Freeze\<close>, so the call returns the value of the
  option: with source, namespace and every other input the same, two values of the
  option give two results.
\<close>

theorem overwrite_with_is_returned:
  "Freeze option_env (Function wrapped_function) False [(''a'', VInt 1)] [] 0
     = Inr (Frozen (Instance (VDict [(VStr ''a'', VInt 1)])))
   \<and> Freeze option_env (Function wrapped_function) False [] [] 0
     = Inr (Frozen (Instance (VDict [])))
   \<and> Instance (VDict [(VStr ''a'', VInt 1)]) \<noteq> Instance (VDict [])"
  by (simp add: freeze_defs node_defs option_env_def option_tree_def wrapped_function_def)

text \<open>
  Apart from that the option is not used: when the execution of the compiled module does
  not depend on the value of the option in its locals and the name looked up afterwards
  is not \<^verbatim>\<open>overwrite_with\<close>, two values of the option give the same outcome.
\<close>

lemma own_locals_other:
  "k \<noteq> ''overwrite_with'' \<Longrightarrow>
     map_of (own_locals env fnc eg ow ig depth t0 s0 m n b s) k
       = map_of (own_locals env fnc eg ow' ig depth t0 s0 m n b s) k"
  by (simp add: own_locals_def)

lemma getitem_locals_other:
  assumes "name \<noteq> Atom (VStr ''overwrite_with'')"
  shows "getitem (locals_after (own_locals env fnc eg ow ig depth t0 s0 m n b s) bound) name
           = getitem (locals_after (own_locals env fnc eg ow' ig depth t0 s0 m n b s) bound) name"
proof (cases name)
  case (Atom v)
  show ?thesis
  proof (cases v)
    case (VStr k)
    with Atom assms have "k \<noteq> ''overwrite_with''" by simp
    then have "map_of (own_locals env fnc eg ow ig depth t0 s0 m n b s) k
                 = map_of (own_locals env fnc eg ow' ig depth t0 s0 m n b s) k"
      by (rule own_locals_other)
    then show ?thesis
      by (simp add: Atom VStr locals_after_def map_add_def)
  qed (simp_all add: Atom)
qed simp_all

lemma overwrite_with_unread:
  assumes "\<And>t0 s0 m n b s.
             exec_compile env freezer_module (own_locals env fnc eg ow ig depth t0 s0 m n b s) m
               = exec_compile env freezer_module (own_locals env fnc eg ow' ig depth t0 s0 m n b s) m"
    and "\<And>m0 t0 s0 m n b s.
           prologue env fnc eg depth = Inr (m0, t0, s0) \<Longrightarrow>
           transform m0 t0 s0 ig = Inr (m, n, b, s) \<Longrightarrow>
           looked_up m n b \<noteq> Inr (Atom (VStr ''overwrite_with''))"
  shows "Freeze_run env fnc eg ow ig depth = Freeze_run env fnc eg ow' ig depth"
proof (cases "prologue env fnc eg depth")
  case (Inl e)
  then show ?thesis by (simp add: Freeze_run_def)
next
  case (Inr p)
  obtain m0 t0 s0 where p: "p = (m0, t0, s0)" by (cases p)
  show ?thesis
  proof (cases "transform m0 t0 s0 ig")
    case (Inl e)
    with Inr p show ?thesis by (simp add: Freeze_run_def)
  next
    case t: (Inr q)
    obtain m n b s where q: "q = (m, n, b, s)" by (cases q)
    from assms(2) Inr p t q have l: "looked_up m n b \<noteq> Inr (Atom (VStr ''overwrite_with''))"
      by simp
    have "rebind env fnc (own_locals env fnc eg ow ig depth t0 s0 m n b s) m n b
            = rebind env fnc (own_locals env fnc eg ow' ig depth t0 s0 m n b s) m n b"
    proof (cases "looked_up m n b")
      case (Inl e)
      then show ?thesis
        using assms(1) [of t0 s0 m n b s] by (simp add: rebind_def split: sum.splits)
    next
      case (Inr name)
      with l have "name \<noteq> Atom (VStr ''overwrite_with'')" by simp
      then have "getitem (locals_after (own_locals env fnc eg ow ig depth t0 s0 m n b s) bound) name
                   = getitem (locals_after (own_locals env fnc eg ow' ig depth t0 s0 m n b s) bound) name"
        for bound by (rule getitem_locals_other)
      then show ?thesis
        using assms(1) [of t0 s0 m n b s] Inr by (simp add: rebind_def split: sum.splits)
    qed
    with Inr p t q show ?thesis by (simp add: Freeze_run_def)
  qed
qed

text \<open>
  So it is for \<^verbatim>\<open>g = Freeze(lambda x: x ** N)\<close>: the sample execution looks at the
  names of the locals only, and the name looked up is \<^verbatim>\<open>g\<close>.
\<close>

lemma exec_plain_keys:
  "map fst l = map fst l' \<Longrightarrow> exec_plain names ns l m = exec_plain names ns l' m"
  by (simp only: exec_plain_def)

lemma own_locals_keys:
  "map fst (own_locals env fnc eg ow ig depth t0 s0 m n b s)
     = map fst (own_locals env fnc eg ow' ig depth t0 s0 m n b s)"
  by (simp add: own_locals_def)

lemma sample_exec_ignores_option:
  "exec_compile (sample_env src tree ns) g (own_locals env fnc eg ow ig depth t0 s0 m n b s) m'
     = exec_compile (sample_env src tree ns) g (own_locals env fnc eg ow' ig depth t0 s0 m n b s) m'"
proof -
  have "exec_plain sample_names g (own_locals env fnc eg ow ig depth t0 s0 m n b s) m'
          = exec_plain sample_names g (own_locals env fnc eg ow' ig depth t0 s0 m n b s) m'"
    by (rule exec_plain_keys) (rule own_locals_keys)
  then show ?thesis by (simp add: sample_env_def)
qed

lemma option_unused_on_lambda:
  "Freeze lambda_env (Function lambda_function) False ow [] 0
     = Freeze lambda_env (Function lambda_function) False ow' [] 0"
proof -
  have "Freeze_run lambda_env (Function lambda_function) False ow [] 0
          = Freeze_run lambda_env (Function lambda_function) False ow' [] 0"
  proof (rule overwrite_with_unread)
    fix t0 s0 m n b s
    show "exec_compile lambda_env freezer_module
            (own_locals lambda_env (Function lambda_function) False ow [] 0 t0 s0 m n b s) m
          = exec_compile lambda_env freezer_module
            (own_locals lambda_env (Function lambda_function) False ow' [] 0 t0 s0 m n b s) m"
      unfolding lambda_env_def by (rule sample_exec_ignores_option)
  next
    fix m0 t0 s0 m n b s
    assume "prologue lambda_env (Function lambda_function) False 0 = Inr (m0, t0, s0)"
      and "transform m0 t0 s0 [] = Inr (m, n, b, s)"
    then show "looked_up m n b \<noteq> Inr (Atom (VStr ''overwrite_with''))"
      by (auto simp add: freeze_defs node_defs lambda_env_def lambda_tree_def lambda_function_def)
  qed
  then show ?thesis by (simp add: Freeze_def)
qed

end
